theory Spec2Isabelle
  imports Main "HOL-Library.Word"
begin

unbundle bit_operations_syntax

section \<open>Evidence vault: data model\<close>

text \<open>
  The development follows the evidence-vault client (class \<open>EvidenceVaultClient\<close>):
  its hex-encoded encryption envelope, the HMAC-signed chain of custody, the layout of
  objects in the S3-compatible bucket, and the operations \<open>storeEvidence\<close>,
  \<open>retrieveEvidence\<close>, \<open>getEvidenceMetadata\<close>, \<open>searchEvidence\<close>,
  \<open>getChainOfCustody\<close> and \<open>addCustodyEvent\<close>.

  A \<open>Buffer\<close> is a list of bytes; a JavaScript string is a \<open>string\<close> (one \<open>char\<close>
  per code unit); a thrown exception is the left injection of a sum, carrying the
  exception class and its message. A method \<open>_name\<close> of the class is the constant
  \<open>name\<close>; an \<open>async\<close> method is the function from the world before the call to its
  result (the value, or the exception it rejects with) and the world after.
\<close>

type_synonym bytes = "8 word list"

datatype js_error =
    Error string
  | ReferenceError string
  | RangeError string
  | SyntaxError string
  | TypeError string

fun message :: "js_error \<Rightarrow> string" where
  "message (Error m) = m"
| "message (ReferenceError m) = m"
| "message (RangeError m) = m"
| "message (SyntaxError m) = m"
| "message (TypeError m) = m"

subsection \<open>Hex encoding of buffers\<close>

text \<open>
  \<open>buf.toString('hex')\<close> writes two lower-case digits per byte.
  \<open>Buffer.from(s, 'hex')\<close> reads pairs of digits of either case and stops at the first
  pair that is not two hex digits; a trailing single character is dropped.
\<close>

definition hex_digit :: "nat \<Rightarrow> char" where
  "hex_digit n = ''0123456789abcdef'' ! (n mod 16)"

definition unhex :: "char \<Rightarrow> nat option" where
  "unhex c =
     (let n = (of_char c :: nat) in
      if 48 \<le> n \<and> n \<le> 57 then Some (n - 48)
      else if 97 \<le> n \<and> n \<le> 102 then Some (n - 87)
      else if 65 \<le> n \<and> n \<le> 70 then Some (n - 55)
      else None)"

definition toString_hex :: "bytes \<Rightarrow> string" where
  "toString_hex buf = concat (map (\<lambda>b. [hex_digit (unat b div 16), hex_digit (unat b mod 16)]) buf)"

fun Buffer_from_hex :: "string \<Rightarrow> bytes" where
  "Buffer_from_hex (c1 # c2 # rest) =
     (case (unhex c1, unhex c2) of
        (Some a, Some b) \<Rightarrow> word_of_nat (a * 16 + b) # Buffer_from_hex rest
      | _ \<Rightarrow> [])"
| "Buffer_from_hex _ = []"


subsection \<open>Numbers and strings of JavaScript\<close>

text \<open>Template literals print a number in decimal (\<open>${results.length}\<close>).\<close>

function decimal :: "nat \<Rightarrow> string" where
  "decimal n = (if n < 10 then [hex_digit n] else decimal (n div 10) @ [hex_digit (n mod 10)])"
  by pat_completeness auto
termination
  by (relation "measure id") auto

text \<open>\<open>s.endsWith(t)\<close>\<close>

definition endsWith :: "string \<Rightarrow> string \<Rightarrow> bool" where
  "endsWith s t = (length t \<le> length s \<and> drop (length s - length t) s = t)"

text \<open>
  An optional property of an object literal is an \<open>option\<close>. \<open>a || b\<close> on a string
  property takes \<open>b\<close> when \<open>a\<close> is missing or empty; the spread \<open>...metadata\<close> at the
  end of an object literal overrides an earlier property whenever the property is present.
\<close>

definition js_or :: "string option \<Rightarrow> string \<Rightarrow> string" where
  "js_or a b = (case a of None \<Rightarrow> b | Some s \<Rightarrow> if s = [] then b else s)"

definition truthy :: "string option \<Rightarrow> bool" where
  "truthy a = (case a of None \<Rightarrow> False | Some s \<Rightarrow> s \<noteq> [])"

definition spread :: "'a option \<Rightarrow> 'a \<Rightarrow> 'a" where
  "spread present earlier = (case present of None \<Rightarrow> earlier | Some v \<Rightarrow> v)"

subsection \<open>JSON.stringify of a custody entry\<close>

text \<open>
  \<open>JSON.stringify\<close> quotes a string: the double quote and the backslash are escaped
  with a backslash, the control characters below U+0020 are written with their short
  escape or as \<open>\u00XX\<close>, every other character stands for itself.
\<close>

definition dquote :: char where
  "dquote = CHR 0x22"

definition backslash :: char where
  "backslash = CHR 0x5C"

definition JSON_escape :: "char \<Rightarrow> string" where
  "JSON_escape c =
     (let n = (of_char c :: nat) in
      if c = dquote then [backslash, dquote]
      else if c = backslash then [backslash, backslash]
      else if n = 8 then [backslash, CHR ''b'']
      else if n = 9 then [backslash, CHR ''t'']
      else if n = 10 then [backslash, CHR ''n'']
      else if n = 12 then [backslash, CHR ''f'']
      else if n = 13 then [backslash, CHR ''r'']
      else if n < 32 then [backslash, CHR ''u'', CHR ''0'', CHR ''0'', hex_digit (n div 16), hex_digit (n mod 16)]
      else [c])"

definition JSON_chars :: "string \<Rightarrow> string" where
  "JSON_chars s = concat (map JSON_escape s)"

definition JSON_quote :: "string \<Rightarrow> string" where
  "JSON_quote s = dquote # JSON_chars s @ [dquote]"

definition JSON_member :: "string \<Rightarrow> string \<Rightarrow> string" where
  "JSON_member k v = dquote # k @ [dquote] @ '':'' @ JSON_quote v"

record custody_entry =
  e_timestamp :: string
  e_evidenceId :: string
  e_action :: string
  e_user :: string
  e_description :: string
  e_signature :: string

text \<open>
  The signed text is \<open>JSON.stringify\<close> of the entry without its signature: the five
  properties in the order in which \<open>_generateChainOfCustodyEntry\<close> writes them, which is
  also the order in which \<open>{ signature, ...data } = entry\<close> leaves them.
\<close>

definition JSON_stringify_entry :: "custody_entry \<Rightarrow> string" where
  "JSON_stringify_entry e =
     ''{'' @ JSON_member ''timestamp'' (e_timestamp e)
     @ '','' @ JSON_member ''evidenceId'' (e_evidenceId e)
     @ '','' @ JSON_member ''action'' (e_action e)
     @ '','' @ JSON_member ''user'' (e_user e)
     @ '','' @ JSON_member ''description'' (e_description e)
     @ ''}''"

subsection \<open>The crypto module and the client\<close>

text \<open>
  Node's \<open>crypto\<close> module is a parameter of the client:
  \<^item> \<open>createHmac_sha256 key data\<close> is the digest of
    \<open>createHmac('sha256', key).update(data)\<close>, which \<open>digest('hex')\<close> then writes in hex;
  \<^item> \<open>createHash_sha256 buf\<close> and \<open>createHash_md5 buf\<close> are the digests of
    \<open>createHash(...).update(buf)\<close>, written in hex by \<open>digest('hex')\<close>;
  \<^item> \<open>aes_256_gcm_encrypt key iv data\<close> is \<open>createCipheriv('aes-256-gcm', key, iv)\<close>
    followed by \<open>update\<close>, \<open>final\<close> and \<open>getAuthTag\<close>: the ciphertext and the tag, or
    the exception thrown on the way;
  \<^item> \<open>aes_256_gcm_decrypt key iv authTag data\<close> is \<open>createDecipheriv\<close>, \<open>setAuthTag\<close>,
    \<open>update\<close> and \<open>final\<close>: the plaintext, or the exception (\<open>final\<close> throws when the tag
    does not authenticate the data);
  \<^item> \<open>Date_valueOf s\<close> is the time value of \<open>new Date(s)\<close>, \<open>None\<close> for an invalid date.
\<close>

record crypto_module =
  createHmac_sha256 :: "bytes \<Rightarrow> string \<Rightarrow> bytes"
  createHash_sha256 :: "bytes \<Rightarrow> bytes"
  createHash_md5 :: "bytes \<Rightarrow> bytes"
  aes_256_gcm_encrypt :: "bytes \<Rightarrow> bytes \<Rightarrow> bytes \<Rightarrow> js_error + bytes \<times> bytes"
  aes_256_gcm_decrypt :: "bytes \<Rightarrow> bytes \<Rightarrow> bytes \<Rightarrow> bytes \<Rightarrow> js_error + bytes"

record client =
  crypto :: crypto_module
  encryptionKey :: bytes
  Date_valueOf :: "string \<Rightarrow> int option"

text \<open>
  What a call reads from outside the program: the clock (\<open>new Date().toISOString()\<close>, read
  once by the operation and once when the custody entry is made), \<open>crypto.randomBytes(16)\<close>
  and \<open>uuidv4()\<close>.
\<close>

record env =
  now :: string
  now_entry :: string
  randomBytes_16 :: bytes
  uuidv4 :: string

definition evidenceTypes_OTHER :: string where
  "evidenceTypes_OTHER = ''other''"

subsection \<open>Custody entries, signatures\<close>

definition signData :: "client \<Rightarrow> string \<Rightarrow> string" where
  "signData c data = toString_hex (createHmac_sha256 (crypto c) (encryptionKey c) data)"

text \<open>\<open>crypto.timingSafeEqual\<close> throws when the two buffers differ in length.\<close>

definition timingSafeEqual :: "bytes \<Rightarrow> bytes \<Rightarrow> js_error + bool" where
  "timingSafeEqual a b =
     (if length a \<noteq> length b then Inl (RangeError ''Input buffers must have the same byte length'')
      else Inr (a = b))"

definition verifySignature :: "client \<Rightarrow> string \<Rightarrow> string \<Rightarrow> js_error + bool" where
  "verifySignature c data sig =
     (let expectedSignature = signData c data in
      timingSafeEqual (Buffer_from_hex expectedSignature) (Buffer_from_hex sig))"

text \<open>The parameter \<open>description = ''\<close> takes its default when the argument is undefined.\<close>

definition generateChainOfCustodyEntry ::
  "client \<Rightarrow> string \<Rightarrow> string \<Rightarrow> string \<Rightarrow> string \<Rightarrow> string option \<Rightarrow> custody_entry" where
  "generateChainOfCustodyEntry c ts evidenceId act usr descr =
     (let entry = \<lparr> e_timestamp = ts, e_evidenceId = evidenceId, e_action = act, e_user = usr,
                     e_description = (case descr of None \<Rightarrow> [] | Some d \<Rightarrow> d),
                     e_signature = [] \<rparr>
      in entry \<lparr> e_signature := signData c (JSON_stringify_entry entry) \<rparr>)"

text \<open>
  The check of \<open>getChainOfCustody\<close>:
  \<open>chainOfCustody.every(entry => this._verifySignature(JSON.stringify(data), signature))\<close>.
  \<open>every\<close> stops at the first entry that does not verify, and an exception of the
  callback leaves it.
\<close>

fun verifyChain :: "client \<Rightarrow> custody_entry list \<Rightarrow> js_error + bool" where
  "verifyChain c [] = Inr True"
| "verifyChain c (entry # rest) =
     (case verifySignature c (JSON_stringify_entry entry) (e_signature entry) of
        Inl err \<Rightarrow> Inl err
      | Inr ok \<Rightarrow> if ok then verifyChain c rest else Inr False)"

subsection \<open>The encryption envelope\<close>

record envelope =
  iv :: string
  encryptedData :: bytes
  authTag :: string

definition encryptData :: "client \<Rightarrow> bytes \<Rightarrow> bytes \<Rightarrow> js_error + envelope" where
  "encryptData c random_iv data =
     (case aes_256_gcm_encrypt (crypto c) (encryptionKey c) random_iv data of
        Inl err \<Rightarrow> Inl err
      | Inr (ciphertext, tag) \<Rightarrow>
          Inr \<lparr> iv = toString_hex random_iv, encryptedData = ciphertext, authTag = toString_hex tag \<rparr>)"

definition decryptData :: "client \<Rightarrow> bytes \<Rightarrow> string \<Rightarrow> string \<Rightarrow> js_error + bytes" where
  "decryptData c data ivHex authTagHex =
     aes_256_gcm_decrypt (crypto c) (encryptionKey c) (Buffer_from_hex ivHex) (Buffer_from_hex authTagHex) data"


subsection \<open>Evidence metadata and the bucket\<close>

text \<open>
  The metadata object that the caller passes to \<open>storeEvidence\<close>, and the record that is
  written as JSON into the \<open>evidence-metadata\<close> entry of the S3 object's metadata. The
  JSON text is parsed back on every read; the bucket holds the record itself. Properties
  of the caller's object other than the ones listed are not carried.
\<close>

record metadata_in =
  in_evidenceId :: "string option"
  in_timestamp :: "string option"
  in_type :: "string option"
  in_caseId :: "string option"
  in_source :: "string option"
  in_description :: "string option"
  in_tags :: "string list option"
  in_customMetadata :: "(string \<times> string) list option"

record evidence_metadata =
  m_evidenceId :: string
  m_timestamp :: string
  m_type :: string
  m_caseId :: "string option"
  m_source :: "string option"
  m_description :: "string option"
  m_tags :: "string list"
  m_customMetadata :: "(string \<times> string) list"
  m_chainOfCustody :: "custody_entry list"
  m_iv :: string
  m_authTag :: string
  m_hash_sha256 :: string
  m_hash_md5 :: string

text \<open>An object of the bucket: its body and its \<open>evidence-metadata\<close>, if it has one.\<close>

record s3_object =
  Body :: bytes
  Metadata :: "evidence_metadata option"

text \<open>
  The world outside the client: the objects of the bucket in the order in which the
  bucket lists them (by key), the commands that the backend currently rejects (with the
  message of the rejection), the files written through \<open>outputPath\<close> (and whether the
  write stream fails), and the lines given to the logger.
\<close>

record world =
  objects :: "(string \<times> s3_object) list"
  s3_rejects :: "string \<Rightarrow> string option"
  files :: "(string \<times> bytes) list"
  write_fails :: "string option"
  logged :: "(string \<times> string) list"

definition logger_info :: "string \<Rightarrow> world \<Rightarrow> world" where
  "logger_info msg w = w \<lparr> logged := logged w @ [(''info'', msg)] \<rparr>"

definition logger_error :: "string \<Rightarrow> world \<Rightarrow> world" where
  "logger_error msg w = w \<lparr> logged := logged w @ [(''error'', msg)] \<rparr>"

text \<open>
  Every method body is \<open>try { ... } catch (error) { logger.error(prefix + error.message);
  throw error; }\<close>.
\<close>

definition catch_log :: "string \<Rightarrow> (js_error + 'a) \<times> world \<Rightarrow> (js_error + 'a) \<times> world" where
  "catch_log prefix r =
     (case r of
        (Inl err, w) \<Rightarrow> (Inl err, logger_error (prefix @ message err) w)
      | (Inr v, w) \<Rightarrow> (Inr v, w))"

text \<open>
  The names that the module binds: the ones its \<open>require\<close> lines destructure or assign,
  and its class. Evaluating any other free name throws a \<open>ReferenceError\<close>.
\<close>

definition module_scope :: "string list" where
  "module_scope =
     [''S3Client'', ''PutObjectCommand'', ''GetObjectCommand'', ''DeleteObjectCommand'',
      ''ListObjectsV2Command'', ''createReadStream'', ''createWriteStream'', ''pipeline'',
      ''path'', ''crypto'', ''uuidv4'', ''logger'', ''EvidenceVaultClient'']"

definition resolve :: "string \<Rightarrow> js_error + unit" where
  "resolve name =
     (if name \<in> set module_scope then Inr ()
      else Inl (ReferenceError (name @ '' is not defined'')))"

text \<open>Keys are listed in the order of their bytes.\<close>

fun key_less :: "string \<Rightarrow> string \<Rightarrow> bool" where
  "key_less [] [] = False"
| "key_less [] (y # ys) = True"
| "key_less (x # xs) [] = False"
| "key_less (x # xs) (y # ys) =
     ((of_char x :: nat) < of_char y \<or> (x = y \<and> key_less xs ys))"

text \<open>
  \<open>PutObject\<close> replaces the object under a key that the bucket has, and places a new key
  in the order of the listing.
\<close>

fun insert_object :: "string \<Rightarrow> s3_object \<Rightarrow> (string \<times> s3_object) list \<Rightarrow> (string \<times> s3_object) list" where
  "insert_object k v [] = [(k, v)]"
| "insert_object k v ((k', v') # rest) =
     (if key_less k k' then (k, v) # (k', v') # rest
      else (k', v') # insert_object k v rest)"

definition put_object :: "string \<Rightarrow> s3_object \<Rightarrow> (string \<times> s3_object) list \<Rightarrow> (string \<times> s3_object) list" where
  "put_object k v objs =
     (if k \<in> set (map fst objs)
      then map (\<lambda>(k', v'). if k' = k then (k', v) else (k', v')) objs
      else insert_object k v objs)"

text \<open>
  \<open>s3Client.send\<close> of the four commands. \<open>ListObjectsV2\<close> without \<open>MaxKeys\<close> returns at
  most 1000 keys, and the client never asks for the continuation.
\<close>

definition send_ListObjectsV2 :: "world \<Rightarrow> js_error + string list" where
  "send_ListObjectsV2 w =
     (case s3_rejects w ''ListObjectsV2Command'' of
        Some msg \<Rightarrow> Inl (Error msg)
      | None \<Rightarrow> Inr (take 1000 (map fst (objects w))))"

definition send_GetObject :: "string \<Rightarrow> world \<Rightarrow> js_error + s3_object" where
  "send_GetObject k w =
     (case s3_rejects w ''GetObjectCommand'' of
        Some msg \<Rightarrow> Inl (Error msg)
      | None \<Rightarrow>
          (case map_of (objects w) k of
             None \<Rightarrow> Inl (Error ''The specified key does not exist.'')
           | Some obj \<Rightarrow> Inr obj))"

definition send_HeadObject :: "string \<Rightarrow> world \<Rightarrow> js_error + evidence_metadata option" where
  "send_HeadObject k w =
     (case s3_rejects w ''HeadObjectCommand'' of
        Some msg \<Rightarrow> Inl (Error msg)
      | None \<Rightarrow>
          (case map_of (objects w) k of
             None \<Rightarrow> Inl (Error ''NotFound'')
           | Some obj \<Rightarrow> Inr (Metadata obj)))"

definition send_PutObject :: "string \<Rightarrow> bytes \<Rightarrow> evidence_metadata \<Rightarrow> world \<Rightarrow> (js_error + unit) \<times> world" where
  "send_PutObject k data md w =
     (case s3_rejects w ''PutObjectCommand'' of
        Some msg \<Rightarrow> (Inl (Error msg), w)
      | None \<Rightarrow>
          (Inr (), w \<lparr> objects := put_object k \<lparr> Body = data, Metadata = Some md \<rparr> (objects w) \<rparr>))"

text \<open>\<open>JSON.parse(response.Metadata['evidence-metadata'])\<close>\<close>

definition JSON_parse_metadata :: "evidence_metadata option \<Rightarrow> js_error + evidence_metadata" where
  "JSON_parse_metadata md =
     (case md of
        None \<Rightarrow> Inl (SyntaxError ''undefined is not valid JSON'')
      | Some m \<Rightarrow> Inr m)"

text \<open>
  The lookup shared by \<open>retrieveEvidence\<close>, \<open>getEvidenceMetadata\<close> and \<open>addCustodyEvent\<close>:
  the first listed key that ends in \<open>/evidenceId\<close>.
\<close>

definition findEvidenceKey :: "string list \<Rightarrow> string \<Rightarrow> js_error + string" where
  "findEvidenceKey Contents evidenceId =
     (let evidenceKeys = filter (\<lambda>Key. endsWith Key (''/'' @ evidenceId)) Contents in
      case evidenceKeys of
        [] \<Rightarrow> Inl (Error (''Evidence with ID '' @ evidenceId @ '' not found''))
      | s3Key # _ \<Rightarrow> Inr s3Key)"

subsection \<open>storeEvidence\<close>

datatype evidence_data = Buffer bytes | FilePath string

text \<open>
  \<open>_fileExists\<close> awaits \<open>fs.promises.access(filePath)\<close> inside \<open>try\<close> and returns false from
  the \<open>catch\<close>. The module binds \<open>createReadStream\<close> and \<open>createWriteStream\<close> but not
  \<open>fs\<close>.
\<close>

definition fileExists :: "string \<Rightarrow> world \<Rightarrow> bool" where
  "fileExists filePath w =
     (case resolve ''fs'' of
        Inl err \<Rightarrow> False
      | Inr _ \<Rightarrow> filePath \<in> fst ` set (files w))"

record store_result =
  r_evidenceId :: string
  r_metadata :: evidence_metadata

definition storeEvidence_try ::
  "client \<Rightarrow> env \<Rightarrow> evidence_data \<Rightarrow> metadata_in \<Rightarrow> string \<Rightarrow> world \<Rightarrow> (js_error + store_result) \<times> world" where
  "storeEvidence_try c ev data metadata usr w =
     (let evidenceId = js_or (in_evidenceId metadata) (uuidv4 ev);
          timestamp = now ev;
          evidenceMetadata =
            \<lparr> m_evidenceId = spread (in_evidenceId metadata) evidenceId,
              m_timestamp = spread (in_timestamp metadata) timestamp,
              m_type = spread (in_type metadata) (js_or (in_type metadata) evidenceTypes_OTHER),
              m_caseId = in_caseId metadata,
              m_source = in_source metadata,
              m_description = in_description metadata,
              m_tags = spread (in_tags metadata) (case in_tags metadata of None \<Rightarrow> [] | Some t \<Rightarrow> t),
              m_customMetadata =
                spread (in_customMetadata metadata)
                  (case in_customMetadata metadata of None \<Rightarrow> [] | Some m \<Rightarrow> m),
              m_chainOfCustody = [], m_iv = [], m_authTag = [],
              m_hash_sha256 = [], m_hash_md5 = [] \<rparr>;
          dataBuffer =
            (case data of
               Buffer b \<Rightarrow> Inr b
             | FilePath p \<Rightarrow>
                 if fileExists p w
                 then (case map_of (files w) p of
                         Some b \<Rightarrow> Inr b
                       | None \<Rightarrow> Inl (Error ''ENOENT: no such file or directory''))
                 else Inl (Error ''Invalid data: must be Buffer or valid file path''))
      in case dataBuffer of
           Inl err \<Rightarrow> (Inl err, w)
         | Inr dataBuffer \<Rightarrow>
        (case encryptData c (randomBytes_16 ev) dataBuffer of
           Inl err \<Rightarrow> (Inl err, w)
         | Inr encrypted \<Rightarrow>
        (let custodyEntry =
               generateChainOfCustodyEntry c (now_entry ev) evidenceId ''STORE'' usr
                 (Some (''Initial storage of evidence '' @ js_or (in_description metadata) []));
             evidenceMetadata = evidenceMetadata
               \<lparr> m_chainOfCustody := [custodyEntry],
                 m_iv := iv encrypted,
                 m_authTag := authTag encrypted,
                 m_hash_sha256 := toString_hex (createHash_sha256 (crypto c) dataBuffer),
                 m_hash_md5 := toString_hex (createHash_md5 (crypto c) dataBuffer) \<rparr>;
             s3Key = m_type evidenceMetadata @ ''/'' @ evidenceId
         in case send_PutObject s3Key (encryptedData encrypted) evidenceMetadata w of
              (Inl err, w') \<Rightarrow> (Inl err, w')
            | (Inr _, w') \<Rightarrow>
                (Inr \<lparr> r_evidenceId = evidenceId, r_metadata = evidenceMetadata \<rparr>,
                 logger_info (''Evidence stored with ID: '' @ evidenceId) w'))))"

definition storeEvidence ::
  "client \<Rightarrow> env \<Rightarrow> evidence_data \<Rightarrow> metadata_in \<Rightarrow> string \<Rightarrow> world \<Rightarrow> (js_error + store_result) \<times> world" where
  "storeEvidence c ev data metadata usr w =
     catch_log ''Error storing evidence: '' (storeEvidence_try c ev data metadata usr w)"

subsection \<open>retrieveEvidence\<close>

record retrieve_result =
  rr_evidenceId :: string
  rr_metadata :: evidence_metadata
  rr_data :: bytes

text \<open>
  \<open>pipeline(Buffer.from(decryptedData), createWriteStream(outputPath))\<close>, with
  \<open>pipeline\<close> of \<open>stream/promises\<close>: the first argument is a \<open>Buffer\<close>, which is not a
  stream, so \<open>pipeline\<close> takes it as an iterable and writes its elements, the bytes as
  numbers, to the file stream one by one. The first \<open>write\<close> throws a \<open>TypeError\<close>, since a
  chunk must be a string or a buffer. Only an empty buffer gets through: nothing is
  written, the stream is ended, and the promise resolves once the (empty) file is
  finished, or rejects with the error of the file stream. \<open>files\<close> records the files of
  the pipelines that have resolved.
\<close>

definition chunk_TypeError :: "8 word \<Rightarrow> js_error" where
  "chunk_TypeError b =
     TypeError (''The '' @ [dquote] @ ''chunk'' @ [dquote] @
       '' argument must be of type string or an instance of Buffer, TypedArray, or DataView.'' @
       '' Received type number ('' @ decimal (unat b) @ '')'')"

definition write_output :: "string \<Rightarrow> bytes \<Rightarrow> world \<Rightarrow> (js_error + unit) \<times> world" where
  "write_output outputPath data w =
     (case data of
        b # rest \<Rightarrow> (Inl (chunk_TypeError b), w)
      | [] \<Rightarrow>
          (case write_fails w of
             Some msg \<Rightarrow> (Inl (Error msg), w)
           | None \<Rightarrow> (Inr (), w \<lparr> files := (outputPath, []) # files w \<rparr>)))"

definition retrieveEvidence_try ::
  "client \<Rightarrow> env \<Rightarrow> string \<Rightarrow> string \<Rightarrow> string option \<Rightarrow> world \<Rightarrow> (js_error + retrieve_result) \<times> world" where
  "retrieveEvidence_try c ev evidenceId usr outputPath w =
     (case send_ListObjectsV2 w of
        Inl err \<Rightarrow> (Inl err, w)
      | Inr Contents \<Rightarrow>
     (case findEvidenceKey Contents evidenceId of
        Inl err \<Rightarrow> (Inl err, w)
      | Inr s3Key \<Rightarrow>
     (case send_GetObject s3Key w of
        Inl err \<Rightarrow> (Inl err, w)
      | Inr response \<Rightarrow>
     (case JSON_parse_metadata (Metadata response) of
        Inl err \<Rightarrow> (Inl err, w)
      | Inr evidenceMetadata \<Rightarrow>
     (let encryptedData = Body response in
      case decryptData c encryptedData (m_iv evidenceMetadata) (m_authTag evidenceMetadata) of
        Inl err \<Rightarrow> (Inl err, w)
      | Inr decryptedData \<Rightarrow>
     (let calculatedHash = toString_hex (createHash_sha256 (crypto c) decryptedData) in
      if calculatedHash \<noteq> m_hash_sha256 evidenceMetadata
      then (Inl (Error ''Evidence integrity check failed: hash mismatch''), w)
      else
     (let custodyEntry =
            generateChainOfCustodyEntry c (now_entry ev) evidenceId ''RETRIEVE'' usr
              (Some (''Evidence retrieved by '' @ usr));
          evidenceMetadata = evidenceMetadata
            \<lparr> m_chainOfCustody := m_chainOfCustody evidenceMetadata @ [custodyEntry] \<rparr>
      in case send_PutObject s3Key encryptedData evidenceMetadata w of
           (Inl err, w') \<Rightarrow> (Inl err, w')
         | (Inr _, w') \<Rightarrow>
        (case (case outputPath of
                 None \<Rightarrow> (Inr (), w')
               | Some p \<Rightarrow> if p = [] then (Inr (), w') else write_output p decryptedData w') of
           (Inl err, w'') \<Rightarrow> (Inl err, w'')
         | (Inr _, w'') \<Rightarrow>
             (Inr \<lparr> rr_evidenceId = evidenceId, rr_metadata = evidenceMetadata,
                    rr_data = decryptedData \<rparr>,
              logger_info (''Evidence with ID '' @ evidenceId @ '' retrieved by '' @ usr) w'')))))))))"

definition retrieveEvidence ::
  "client \<Rightarrow> env \<Rightarrow> string \<Rightarrow> string \<Rightarrow> string option \<Rightarrow> world \<Rightarrow> (js_error + retrieve_result) \<times> world" where
  "retrieveEvidence c ev evidenceId usr outputPath w =
     catch_log ''Error retrieving evidence: '' (retrieveEvidence_try c ev evidenceId usr outputPath w)"

subsection \<open>getEvidenceMetadata, searchEvidence, getChainOfCustody\<close>

definition getEvidenceMetadata_try :: "string \<Rightarrow> world \<Rightarrow> (js_error + evidence_metadata) \<times> world" where
  "getEvidenceMetadata_try evidenceId w =
     (case send_ListObjectsV2 w of
        Inl err \<Rightarrow> (Inl err, w)
      | Inr Contents \<Rightarrow>
     (case findEvidenceKey Contents evidenceId of
        Inl err \<Rightarrow> (Inl err, w)
      | Inr s3Key \<Rightarrow>
     (case resolve ''HeadObjectCommand'' of
        Inl err \<Rightarrow> (Inl err, w)
      | Inr _ \<Rightarrow>
     (case send_HeadObject s3Key w of
        Inl err \<Rightarrow> (Inl err, w)
      | Inr response \<Rightarrow>
     (case JSON_parse_metadata response of
        Inl err \<Rightarrow> (Inl err, w)
      | Inr evidenceMetadata \<Rightarrow>
          (Inr evidenceMetadata,
           logger_info (''Retrieved metadata for evidence ID: '' @ evidenceId) w))))))"

definition getEvidenceMetadata :: "string \<Rightarrow> world \<Rightarrow> (js_error + evidence_metadata) \<times> world" where
  "getEvidenceMetadata evidenceId w =
     catch_log ''Error retrieving evidence metadata: '' (getEvidenceMetadata_try evidenceId w)"

record filters =
  f_type :: "string option"
  f_caseId :: "string option"
  f_dateFrom :: "string option"
  f_dateTo :: "string option"
  f_tags :: "string list option"

text \<open>\<open>a < b\<close> on two dates compares their time values; it is false when either is invalid.\<close>

definition date_less :: "int option \<Rightarrow> int option \<Rightarrow> bool" where
  "date_less a b = (case (a, b) of (Some x, Some y) \<Rightarrow> x < y | _ \<Rightarrow> False)"

text \<open>The filters of the loop body of \<open>searchEvidence\<close>, in its order.\<close>

definition matches :: "client \<Rightarrow> filters \<Rightarrow> evidence_metadata \<Rightarrow> bool" where
  "matches c fs metadata =
     (let match = True;
          match = (if truthy (f_type fs) \<and> Some (m_type metadata) \<noteq> f_type fs then False else match);
          match = (if truthy (f_caseId fs) \<and> m_caseId metadata \<noteq> f_caseId fs then False else match);
          match = (if truthy (f_dateFrom fs) \<and>
                      date_less (Date_valueOf c (m_timestamp metadata))
                                (Date_valueOf c (js_or (f_dateFrom fs) []))
                   then False else match);
          match = (if truthy (f_dateTo fs) \<and>
                      date_less (Date_valueOf c (js_or (f_dateTo fs) []))
                                (Date_valueOf c (m_timestamp metadata))
                   then False else match);
          match = (case f_tags fs of
                     None \<Rightarrow> match
                   | Some tags \<Rightarrow>
                       if length tags > 0
                       then (let hasTag = list_ex (\<lambda>tag. tag \<in> set (m_tags metadata)) tags
                             in if \<not> hasTag then False else match)
                       else match)
      in match)"

fun search_loop ::
  "client \<Rightarrow> filters \<Rightarrow> string list \<Rightarrow> (string \<times> evidence_metadata) list \<Rightarrow> world
     \<Rightarrow> js_error + (string \<times> evidence_metadata) list" where
  "search_loop c fs [] results w = Inr results"
| "search_loop c fs (Key # rest) results w =
     (case resolve ''HeadObjectCommand'' of
        Inl err \<Rightarrow> Inl err
      | Inr _ \<Rightarrow>
     (case send_HeadObject Key w of
        Inl err \<Rightarrow> Inl err
      | Inr response \<Rightarrow>
     (case response of
        None \<Rightarrow> search_loop c fs rest results w
      | Some metadata \<Rightarrow>
          if matches c fs metadata
          then search_loop c fs rest (results @ [(m_evidenceId metadata, metadata)]) w
          else search_loop c fs rest results w)))"

definition searchEvidence_try ::
  "client \<Rightarrow> filters \<Rightarrow> world \<Rightarrow> (js_error + (string \<times> evidence_metadata) list) \<times> world" where
  "searchEvidence_try c fs w =
     (case send_ListObjectsV2 w of
        Inl err \<Rightarrow> (Inl err, w)
      | Inr Contents \<Rightarrow>
          if length Contents = 0 then (Inr [], w)
          else
            (case search_loop c fs Contents [] w of
               Inl err \<Rightarrow> (Inl err, w)
             | Inr results \<Rightarrow>
                 (Inr results,
                  logger_info (''Found '' @ decimal (length results) @ '' evidence items matching filters'') w)))"

definition searchEvidence ::
  "client \<Rightarrow> filters \<Rightarrow> world \<Rightarrow> (js_error + (string \<times> evidence_metadata) list) \<times> world" where
  "searchEvidence c fs w = catch_log ''Error searching evidence: '' (searchEvidence_try c fs w)"

text \<open>
  The stored metadata always has its \<open>chainOfCustody\<close> here, so the branch
  \<open>No chain of custody found\<close> of \<open>getChainOfCustody\<close> has no counterpart.
\<close>

definition getChainOfCustody_try :: "client \<Rightarrow> string \<Rightarrow> world \<Rightarrow> (js_error + custody_entry list) \<times> world" where
  "getChainOfCustody_try c evidenceId w =
     (case getEvidenceMetadata evidenceId w of
        (Inl err, w') \<Rightarrow> (Inl err, w')
      | (Inr metadata, w') \<Rightarrow>
     (case verifyChain c (m_chainOfCustody metadata) of
        Inl err \<Rightarrow> (Inl err, w')
      | Inr validChain \<Rightarrow>
          if \<not> validChain
          then (Inl (Error (''Chain of custody integrity check failed for evidence '' @ evidenceId)), w')
          else (Inr (m_chainOfCustody metadata),
                logger_info (''Retrieved chain of custody for evidence ID: '' @ evidenceId) w')))"

definition getChainOfCustody :: "client \<Rightarrow> string \<Rightarrow> world \<Rightarrow> (js_error + custody_entry list) \<times> world" where
  "getChainOfCustody c evidenceId w =
     catch_log ''Error getting chain of custody: '' (getChainOfCustody_try c evidenceId w)"

subsection \<open>addCustodyEvent\<close>

definition addCustodyEvent_try ::
  "client \<Rightarrow> env \<Rightarrow> string \<Rightarrow> string \<Rightarrow> string \<Rightarrow> string option \<Rightarrow> world
     \<Rightarrow> (js_error + evidence_metadata) \<times> world" where
  "addCustodyEvent_try c ev evidenceId act usr descr w =
     (case send_ListObjectsV2 w of
        Inl err \<Rightarrow> (Inl err, w)
      | Inr Contents \<Rightarrow>
     (case findEvidenceKey Contents evidenceId of
        Inl err \<Rightarrow> (Inl err, w)
      | Inr s3Key \<Rightarrow>
     (case send_GetObject s3Key w of
        Inl err \<Rightarrow> (Inl err, w)
      | Inr response \<Rightarrow>
     (case JSON_parse_metadata (Metadata response) of
        Inl err \<Rightarrow> (Inl err, w)
      | Inr evidenceMetadata \<Rightarrow>
     (let encryptedData = Body response;
          custodyEntry = generateChainOfCustodyEntry c (now_entry ev) evidenceId act usr descr;
          evidenceMetadata = evidenceMetadata
            \<lparr> m_chainOfCustody := m_chainOfCustody evidenceMetadata @ [custodyEntry] \<rparr>
      in case send_PutObject s3Key encryptedData evidenceMetadata w of
           (Inl err, w') \<Rightarrow> (Inl err, w')
         | (Inr _, w') \<Rightarrow>
             (Inr evidenceMetadata,
              logger_info (''Added custody event to evidence ID: '' @ evidenceId) w'))))))"

definition addCustodyEvent ::
  "client \<Rightarrow> env \<Rightarrow> string \<Rightarrow> string \<Rightarrow> string \<Rightarrow> string option \<Rightarrow> world
     \<Rightarrow> (js_error + evidence_metadata) \<times> world" where
  "addCustodyEvent c ev evidenceId act usr descr w =
     catch_log ''Error adding custody event: '' (addCustodyEvent_try c ev evidenceId act usr descr w)"

subsection \<open>The upload route of the API gateway\<close>










section \<open>Notions used to state the properties\<close>

text \<open>The five signed properties of a custody entry.\<close>

definition content :: "custody_entry \<Rightarrow> string \<times> string \<times> string \<times> string \<times> string" where
  "content e = (e_timestamp e, e_evidenceId e, e_action e, e_user e, e_description e)"

text \<open>
  A chain built by \<open>_generateChainOfCustodyEntry\<close> alone is the list of the entries made
  from a list of its arguments (the clock's reading first).
\<close>

definition entry_of ::
  "client \<Rightarrow> string \<times> string \<times> string \<times> string \<times> string option \<Rightarrow> custody_entry" where
  "entry_of c a =
     (case a of (ts, evidenceId, act, usr, descr) \<Rightarrow>
        generateChainOfCustodyEntry c ts evidenceId act usr descr)"

text \<open>Two different texts with the same HMAC under the client's key.\<close>

definition mac_collision :: "client \<Rightarrow> string \<Rightarrow> string \<Rightarrow> bool" where
  "mac_collision c x y \<longleftrightarrow>
     x \<noteq> y \<and>
     createHmac_sha256 (crypto c) (encryptionKey c) x = createHmac_sha256 (crypto c) (encryptionKey c) y"

text \<open>
  Flipping bit \<open>i\<close> of a buffer (bit \<open>i mod 8\<close> of byte \<open>i div 8\<close>), and of a string read as
  its bytes. \<open>toUpperCase\<close> is the method of JavaScript strings, on ASCII letters.
\<close>

definition byte_of_char :: "char \<Rightarrow> 8 word" where
  "byte_of_char ch = word_of_nat (of_char ch)"


definition flip_buffer_bit :: "nat \<Rightarrow> bytes \<Rightarrow> bytes" where
  "flip_buffer_bit i buf = buf [i div 8 := (buf ! (i div 8)) XOR push_bit (i mod 8) 1]"


definition toUpperCase :: "string \<Rightarrow> string" where
  "toUpperCase s =
     map (\<lambda>ch. let n = (of_char ch :: nat) in if 97 \<le> n \<and> n \<le> 122 then char_of (n - 32) else ch) s"

text \<open>
  What the properties of the envelope take from AES-256-GCM: decryption under the same
  key, nonce and tag returns what was encrypted, and a ciphertext, nonce or tag with one
  bit flipped is rejected.
\<close>

definition gcm_round_trip :: "crypto_module \<Rightarrow> bool" where
  "gcm_round_trip m \<longleftrightarrow>
     (\<forall>key nonce data ct tag.
        aes_256_gcm_encrypt m key nonce data = Inr (ct, tag) \<longrightarrow>
        aes_256_gcm_decrypt m key nonce tag ct = Inr data)"


subsection \<open>A small instance of the crypto module\<close>

text \<open>
  The theorems are exercised on concrete values with this instance. It is not Node's
  \<open>crypto\<close>: the MAC is the key followed by the text, the digests are the data itself
  and its first byte, and the cipher adds one to every byte and takes the nonce followed
  by the ciphertext for its tag.
\<close>

text \<open>
  Two values of \<open>crypto.randomBytes(16)\<close>, with their hex text and the hex text of the
  tags that the demonstration cipher makes of them for the plaintexts \<open>[104, 105]\<close> and
  \<open>[1, 2]\<close>.
\<close>

abbreviation demo_iv :: bytes where
  "demo_iv \<equiv> [0xab, 0x01, 0x02, 0x03, 0x04, 0x05, 0x06, 0x07,
     0x08, 0x09, 0x0a, 0x0b, 0x0c, 0x0d, 0x0e, 0x0f]"

abbreviation demo_iv_hex :: string where
  "demo_iv_hex \<equiv> ''ab0102030405060708090a0b0c0d0e0f''"


abbreviation demo_tag_hex :: string where
  "demo_tag_hex \<equiv> ''ab0102030405060708090a0b0c0d0e0f696a''"

abbreviation demo_iv2 :: bytes where
  "demo_iv2 \<equiv> [0xcd, 0x02, 0x03, 0x04, 0x05, 0x06, 0x07,
     0x08, 0x09, 0x0a, 0x0b, 0x0c, 0x0d, 0x0e, 0x0f, 0x10]"

abbreviation demo_iv2_hex :: string where
  "demo_iv2_hex \<equiv> ''cd02030405060708090a0b0c0d0e0f10''"

abbreviation demo_tag2_hex :: string where
  "demo_tag2_hex \<equiv> ''cd02030405060708090a0b0c0d0e0f100203''"

definition demo_crypto :: crypto_module where
  "demo_crypto =
     \<lparr> createHmac_sha256 = (\<lambda>key data. key @ map byte_of_char data),
       createHash_sha256 = (\<lambda>buf. buf),
       createHash_md5 = (\<lambda>buf. take 1 buf),
       aes_256_gcm_encrypt =
         (\<lambda>key nonce data. Inr (map (\<lambda>b. b + 1) data, nonce @ map (\<lambda>b. b + 1) data)),
       aes_256_gcm_decrypt =
         (\<lambda>key nonce tag data.
            if tag = nonce @ data then Inr (map (\<lambda>b. b - 1) data)
            else Inl (Error ''Unsupported state or unable to authenticate data'')) \<rparr>"

definition demo_client :: client where
  "demo_client =
     \<lparr> crypto = demo_crypto, encryptionKey = [1, 2, 3],
       Date_valueOf = (\<lambda>s. Some (int (length s))) \<rparr>"

definition demo_entry :: custody_entry where
  "demo_entry = generateChainOfCustodyEntry demo_client ''t0'' ''e1'' ''STORE'' ''alice'' None"

subsection \<open>Serialized calls on one evidence id\<close>

text \<open>
  A call of \<open>retrieveEvidence\<close> or of \<open>addCustodyEvent\<close> by its arguments, with what
  it reads from outside; a run of such calls on one evidence id, one after the other,
  all of which return; and the custody entry that a call makes.
\<close>

datatype custody_op =
    Retrieve string "string option"
  | AddCustodyEvent string string "string option"

fun run_op :: "client \<Rightarrow> string \<Rightarrow> env \<times> custody_op \<Rightarrow> world \<Rightarrow> world option" where
  "run_op c evidenceId (ev, Retrieve usr outputPath) w =
     (case retrieveEvidence c ev evidenceId usr outputPath w of
        (Inl err, w') \<Rightarrow> None
      | (Inr res, w') \<Rightarrow> Some w')"
| "run_op c evidenceId (ev, AddCustodyEvent act usr descr) w =
     (case addCustodyEvent c ev evidenceId act usr descr w of
        (Inl err, w') \<Rightarrow> None
      | (Inr res, w') \<Rightarrow> Some w')"

fun run_ops :: "client \<Rightarrow> string \<Rightarrow> (env \<times> custody_op) list \<Rightarrow> world \<Rightarrow> world option" where
  "run_ops c evidenceId [] w = Some w"
| "run_ops c evidenceId (op # ops) w =
     (case run_op c evidenceId op w of
        None \<Rightarrow> None
      | Some w' \<Rightarrow> run_ops c evidenceId ops w')"

fun entry_of_op :: "client \<Rightarrow> string \<Rightarrow> env \<times> custody_op \<Rightarrow> custody_entry" where
  "entry_of_op c evidenceId (ev, Retrieve usr outputPath) =
     generateChainOfCustodyEntry c (now_entry ev) evidenceId ''RETRIEVE'' usr
       (Some (''Evidence retrieved by '' @ usr))"
| "entry_of_op c evidenceId (ev, AddCustodyEvent act usr descr) =
     generateChainOfCustodyEntry c (now_entry ev) evidenceId act usr descr"

text \<open>The stored chain of custody under a key, if the key holds evidence.\<close>

definition stored_chain :: "world \<Rightarrow> string \<Rightarrow> custody_entry list option" where
  "stored_chain w k =
     (case map_of (objects w) k of
        None \<Rightarrow> None
      | Some obj \<Rightarrow> (case Metadata obj of None \<Rightarrow> None | Some md \<Rightarrow> Some (m_chainOfCustody md)))"

text \<open>The chain stored under a key after a run of calls, if all of them return.\<close>

definition chain_after ::
  "client \<Rightarrow> string \<Rightarrow> (env \<times> custody_op) list \<Rightarrow> world \<Rightarrow> string \<Rightarrow> custody_entry list option" where
  "chain_after c evidenceId ops w k =
     (case run_ops c evidenceId ops w of
        None \<Rightarrow> None
      | Some w' \<Rightarrow> stored_chain w' k)"

subsection \<open>Worlds and arguments for the demonstrations\<close>

definition world0 :: world where
  "world0 = \<lparr> objects = [], s3_rejects = (\<lambda>name. None), files = [], write_fails = None, logged = [] \<rparr>"

definition rejecting :: "string \<Rightarrow> string \<Rightarrow> world \<Rightarrow> world" where
  "rejecting name msg w = w \<lparr> s3_rejects := (s3_rejects w) (name := Some msg) \<rparr>"

definition env0 :: env where
  "env0 = \<lparr> now = ''T0'', now_entry = ''T1'', randomBytes_16 = demo_iv, uuidv4 = ''u1'' \<rparr>"

definition env1 :: env where
  "env1 = \<lparr> now = ''T2'', now_entry = ''T3'', randomBytes_16 = demo_iv2, uuidv4 = ''u2'' \<rparr>"

definition no_metadata :: metadata_in where
  "no_metadata =
     \<lparr> in_evidenceId = None, in_timestamp = None, in_type = None, in_caseId = None,
       in_source = None, in_description = None, in_tags = None, in_customMetadata = None \<rparr>"

definition no_filters :: filters where
  "no_filters = \<lparr> f_type = None, f_caseId = None, f_dateFrom = None, f_dateTo = None, f_tags = None \<rparr>"

text \<open>The world after one artifact of type \<open>pcap\<close> has been stored in the empty bucket.\<close>

definition world_pcap :: world where
  "world_pcap =
     snd (storeEvidence demo_client env0 (Buffer [104, 105])
            (no_metadata \<lparr> in_type := Some ''pcap'', in_description := Some ''capture'' \<rparr>)
            ''alice'' world0)"

text \<open>
  The same world with a wrong digest recorded in the metadata; and the world after a
  second artifact has been stored, under the id \<open>x/u1\<close> or again under the id \<open>u1\<close>,
  with type \<open>log\<close>.
\<close>

definition world_bad_digest :: world where
  "world_bad_digest =
     world_pcap \<lparr> objects :=
       map (\<lambda>(k, obj). (k, obj \<lparr> Metadata := map_option (\<lambda>md. md \<lparr> m_hash_sha256 := ''0000'' \<rparr>) (Metadata obj) \<rparr>))
         (objects world_pcap) \<rparr>"

definition world_shadowed :: world where
  "world_shadowed =
     snd (storeEvidence demo_client env1 (Buffer [1, 2])
            (no_metadata \<lparr> in_evidenceId := Some ''x/u1'', in_type := Some ''log'' \<rparr>)
            ''eve'' world_pcap)"

definition world_same_id :: world where
  "world_same_id =
     snd (storeEvidence demo_client env1 (Buffer [1, 2])
            (no_metadata \<lparr> in_evidenceId := Some ''u1'', in_type := Some ''log'' \<rparr>)
            ''eve'' world_pcap)"

text \<open>Two calls on the stored artifact.\<close>

definition demo_ops :: "(env \<times> custody_op) list" where
  "demo_ops = [(env1, Retrieve ''bob'' None), (env1, AddCustodyEvent ''ANALYZE'' ''carol'' None)]"

section \<open>Properties\<close>

lemma unhex_hex_digit_upto: "\<forall>n \<in> set [0..<16]. unhex (hex_digit n) = Some n"
  by code_simp

lemma unhex_hex_digit: "n < 16 \<Longrightarrow> unhex (hex_digit n) = Some n"
  using unhex_hex_digit_upto by simp

lemma hex_round_trip: "Buffer_from_hex (toString_hex buf) = buf"
proof (induction buf)
  case Nil
  show ?case by (simp add: toString_hex_def)
next
  case (Cons b bs)
  have lo: "unat b mod 16 < 16" by simp
  have "unat b < 256" using unsigned_less [of b] by simp
  then have hi: "unat b div 16 < 16" by simp
  have "word_of_nat (unat b div 16 * 16 + unat b mod 16) = b" by simp
  with Cons lo hi show ?case
    by (simp add: toString_hex_def unhex_hex_digit)
qed

subsection \<open>JSON text of an entry determines its content\<close>

lemma hex_digit_inj: "n < 16 \<Longrightarrow> m < 16 \<Longrightarrow> hex_digit n = hex_digit m \<Longrightarrow> n = m"
  by (metis unhex_hex_digit option.inject)

lemma div_mod_16_eq: "(n::nat) div 16 = m div 16 \<Longrightarrow> n mod 16 = m mod 16 \<Longrightarrow> n = m"
  by (metis div_mult_mod_eq)

lemma JSON_escape_head: "\<exists>x xs. JSON_escape ch = x # xs \<and> x \<noteq> dquote"
  by (simp add: JSON_escape_def Let_def dquote_def backslash_def)

lemma u_escape_inj:
  assumes "n < 32" "m < 32" "hex_digit (n div 16) = hex_digit (m div 16)"
    "hex_digit (n mod 16) = hex_digit (m mod 16)"
  shows "n = m"
proof -
  have "n div 16 < 16" "m div 16 < 16" using assms by auto
  then have "n div 16 = m div 16" using assms(3) hex_digit_inj by blast
  moreover have "n mod 16 = m mod 16" using assms(4) hex_digit_inj [of "n mod 16" "m mod 16"] by simp
  ultimately show ?thesis by (rule div_mod_16_eq)
qed

lemma JSON_escape_prefix_free:
  assumes "JSON_escape a @ X = JSON_escape b @ Y"
  shows "a = b \<and> X = Y"
proof -
  have na: "of_char a = (n::nat) \<Longrightarrow> of_char b = n \<Longrightarrow> a = b" for n
    by (metis of_char_eq_iff)
  show ?thesis
    using assms
    by (auto simp: JSON_escape_def Let_def dquote_def backslash_def
        split: if_splits dest: u_escape_inj intro: na)
qed

lemma JSON_chars_Nil [simp]: "JSON_chars [] = []"
  by (simp add: JSON_chars_def)

lemma JSON_chars_Cons [simp]: "JSON_chars (x # xs) = JSON_escape x @ JSON_chars xs"
  by (simp add: JSON_chars_def)

lemma JSON_chars_inj:
  "JSON_chars s @ dquote # X = JSON_chars t @ dquote # Y \<Longrightarrow> s = t \<and> X = Y"
proof (induction s arbitrary: t)
  case Nil
  show ?case
  proof (cases t)
    case Nil
    with Nil.prems show ?thesis by simp
  next
    case (Cons b t')
    obtain x xs where "JSON_escape b = x # xs" "x \<noteq> dquote"
      using JSON_escape_head by blast
    with Nil.prems Cons show ?thesis by simp
  qed
next
  case (Cons a s)
  show ?case
  proof (cases t)
    case Nil
    obtain x xs where "JSON_escape a = x # xs" "x \<noteq> dquote"
      using JSON_escape_head by blast
    with Cons.prems Nil show ?thesis by auto
  next
    case (Cons b t')
    with Cons.prems
    have "JSON_escape a @ (JSON_chars s @ dquote # X) = JSON_escape b @ (JSON_chars t' @ dquote # Y)"
      by simp
    then have "a = b" and "JSON_chars s @ dquote # X = JSON_chars t' @ dquote # Y"
      using JSON_escape_prefix_free by blast+
    with Cons.IH Cons show ?thesis by blast
  qed
qed

lemma JSON_stringify_entry_inj:
  assumes "JSON_stringify_entry e = JSON_stringify_entry e'"
  shows "content e = content e'"
proof -
  from assms have 1:
    "JSON_chars (e_timestamp e) @ dquote # ('','' @ JSON_member ''evidenceId'' (e_evidenceId e)
     @ '','' @ JSON_member ''action'' (e_action e)
     @ '','' @ JSON_member ''user'' (e_user e)
     @ '','' @ JSON_member ''description'' (e_description e)
     @ ''}'')
   = JSON_chars (e_timestamp e') @ dquote # ('','' @ JSON_member ''evidenceId'' (e_evidenceId e')
     @ '','' @ JSON_member ''action'' (e_action e')
     @ '','' @ JSON_member ''user'' (e_user e')
     @ '','' @ JSON_member ''description'' (e_description e')
     @ ''}'')"
    by (simp add: JSON_stringify_entry_def JSON_member_def [of "''timestamp''"] JSON_quote_def)
  from JSON_chars_inj [OF 1] have ts: "e_timestamp e = e_timestamp e'" and 2:
    "JSON_chars (e_evidenceId e) @ dquote # ('','' @ JSON_member ''action'' (e_action e)
     @ '','' @ JSON_member ''user'' (e_user e)
     @ '','' @ JSON_member ''description'' (e_description e)
     @ ''}'')
   = JSON_chars (e_evidenceId e') @ dquote # ('','' @ JSON_member ''action'' (e_action e')
     @ '','' @ JSON_member ''user'' (e_user e')
     @ '','' @ JSON_member ''description'' (e_description e')
     @ ''}'')"
    by (simp_all add: JSON_member_def [of "''evidenceId''"] JSON_quote_def)
  from JSON_chars_inj [OF 2] have ei: "e_evidenceId e = e_evidenceId e'" and 3:
    "JSON_chars (e_action e) @ dquote # ('','' @ JSON_member ''user'' (e_user e)
     @ '','' @ JSON_member ''description'' (e_description e)
     @ ''}'')
   = JSON_chars (e_action e') @ dquote # ('','' @ JSON_member ''user'' (e_user e')
     @ '','' @ JSON_member ''description'' (e_description e')
     @ ''}'')"
    by (simp_all add: JSON_member_def [of "''action''"] JSON_quote_def)
  from JSON_chars_inj [OF 3] have ac: "e_action e = e_action e'" and 4:
    "JSON_chars (e_user e) @ dquote # ('','' @ JSON_member ''description'' (e_description e)
     @ ''}'')
   = JSON_chars (e_user e') @ dquote # ('','' @ JSON_member ''description'' (e_description e')
     @ ''}'')"
    by (simp_all add: JSON_member_def [of "''user''"] JSON_quote_def)
  from JSON_chars_inj [OF 4] have us: "e_user e = e_user e'" and 5:
    "JSON_chars (e_description e) @ dquote # ''}'' = JSON_chars (e_description e') @ dquote # ''}''"
    by (simp_all add: JSON_member_def [of "''description''"] JSON_quote_def)
  from JSON_chars_inj [OF 5] have "e_description e = e_description e'" by simp
  with ts ei ac us show ?thesis by (simp add: content_def)
qed

subsection \<open>Signatures and chains\<close>

lemma stringify_ignores_signature [simp]:
  "JSON_stringify_entry (e \<lparr> e_signature := s \<rparr>) = JSON_stringify_entry e"
  by (simp add: JSON_stringify_entry_def)

lemma verifySignature_iff:
  "verifySignature c data sig = Inr True \<longleftrightarrow>
     Buffer_from_hex sig = createHmac_sha256 (crypto c) (encryptionKey c) data"
  by (auto simp: verifySignature_def signData_def timingSafeEqual_def hex_round_trip)

lemma verifyChain_iff:
  "verifyChain c chain = Inr True \<longleftrightarrow>
     (\<forall>e \<in> set chain. verifySignature c (JSON_stringify_entry e) (e_signature e) = Inr True)"
  by (induction chain) (auto split: sum.splits)

lemma generated_entry_verifies:
  "verifySignature c (JSON_stringify_entry (entry_of c a)) (e_signature (entry_of c a)) = Inr True"
  by (simp add: verifySignature_iff entry_of_def generateChainOfCustodyEntry_def signData_def
      hex_round_trip JSON_stringify_entry_def split: prod.splits)

lemma generated_chain_verifies: "verifyChain c (map (entry_of c) args) = Inr True"
  by (simp add: verifyChain_iff generated_entry_verifies)

lemma generated_signature:
  "Buffer_from_hex (e_signature (entry_of c a)) =
     createHmac_sha256 (crypto c) (encryptionKey c) (JSON_stringify_entry (entry_of c a))"
  using generated_entry_verifies [of c a] by (simp add: verifySignature_iff)

lemma unhex_upper:
  "unhex (let n = (of_char ch :: nat) in if 97 \<le> n \<and> n \<le> 122 then char_of (n - 32) else ch) = unhex ch"
proof -
  have "(of_char ch :: nat) < 256" by simp
  then show ?thesis
    by (auto simp: unhex_def Let_def)
qed

lemma Buffer_from_hex_toUpperCase: "Buffer_from_hex (toUpperCase s) = Buffer_from_hex s"
proof (induction s rule: Buffer_from_hex.induct)
  case (1 c1 c2 rest)
  then show ?case
    using unhex_upper [of c1] unhex_upper [of c2]
    by (auto simp: toUpperCase_def split: option.splits)
qed (simp_all add: toUpperCase_def)

lemma verifyChain_update:
  assumes "i < length chain" "verifyChain c chain = Inr True"
  shows "verifyChain c (chain [i := e']) = Inr True \<longleftrightarrow>
         verifySignature c (JSON_stringify_entry e') (e_signature e') = Inr True"
proof -
  have "set (chain [i := e']) \<subseteq> insert e' (set chain)"
    by (rule set_update_subset_insert)
  moreover have "e' \<in> set (chain [i := e'])"
    using assms(1) by (simp add: set_update_memI)
  ultimately show ?thesis
    using assms(2) by (auto simp: verifyChain_iff)
qed

lemma verifySignature_toUpperCase:
  "verifySignature c data (toUpperCase sig) = verifySignature c data sig"
  by (simp add: verifySignature_def Buffer_from_hex_toUpperCase)

subsection \<open>The demonstration instance\<close>

lemma inj_byte_of_char: "inj byte_of_char"
proof (rule injI)
  fix a b assume "byte_of_char a = byte_of_char b"
  then have "unat (word_of_nat (of_char a) :: 8 word) = unat (word_of_nat (of_char b) :: 8 word)"
    by (simp add: byte_of_char_def)
  then have "(of_char a :: nat) = of_char b"
    by (simp add: unat_of_nat)
  then show "a = b" by simp
qed

lemma demo_mac_no_collision: "\<not> mac_collision demo_client x y"
proof -
  have "map byte_of_char x = map byte_of_char y \<Longrightarrow> x = y"
    using inj_byte_of_char by (simp add: inj_map_eq_map)
  then show ?thesis
    by (auto simp: mac_collision_def demo_client_def demo_crypto_def)
qed

lemma demo_signature_head: "take 8 (e_signature demo_entry) = ''0102037b''"
  by (simp add: demo_entry_def generateChainOfCustodyEntry_def signData_def demo_client_def
      demo_crypto_def toString_hex_def hex_digit_def JSON_stringify_entry_def byte_of_char_def)

lemma demo_entry_generated:
  "[demo_entry] = map (entry_of demo_client) [(''t0'', ''e1'', ''STORE'', ''alice'', None)]"
  by (simp add: demo_entry_def entry_of_def)

subsection \<open>Bit flips, the envelope and the demonstration cipher\<close>




lemma length_flip_bit [simp]: "length (flip_buffer_bit i buf) = length buf"
  by (simp add: flip_buffer_bit_def)

lemma demo_gcm_round_trip: "gcm_round_trip demo_crypto"
  by (simp add: gcm_round_trip_def demo_crypto_def comp_def)



lemma decryptData_encryptData:
  assumes "gcm_round_trip (crypto c)" and "encryptData c nonce P = Inr e"
  shows "decryptData c (encryptedData e) (iv e) (authTag e) = Inr P"
proof -
  from assms(2) obtain ct tag
    where enc: "aes_256_gcm_encrypt (crypto c) (encryptionKey c) nonce P = Inr (ct, tag)"
      and e: "e = \<lparr> iv = toString_hex nonce, encryptedData = ct, authTag = toString_hex tag \<rparr>"
    by (auto simp: encryptData_def split: sum.splits)
  from assms(1) enc have "aes_256_gcm_decrypt (crypto c) (encryptionKey c) nonce tag ct = Inr P"
    unfolding gcm_round_trip_def by blast
  then show ?thesis
    by (simp add: decryptData_def e hex_round_trip)
qed

lemma decryptData_toUpperCase:
  "decryptData c data (toUpperCase ivHex) (toUpperCase authTagHex) = decryptData c data ivHex authTagHex"
  by (simp add: decryptData_def Buffer_from_hex_toUpperCase)

section \<open>Chain integrity (C1)\<close>

text \<open>
  C1. A chain made only of entries of \<open>_generateChainOfCustodyEntry\<close> passes the check of
  \<open>getChainOfCustody\<close>. When one entry of such a chain is replaced by \<open>e'\<close>:
  if \<open>e'\<close> keeps the signature and differs in one of the five signed properties, the
  check no longer passes, unless the HMAC of the new text collides with that of the old;
  if \<open>e'\<close> keeps the five properties, the check passes exactly when the new signature
  decodes from hex to the same bytes as the old one. (The check does not pass when it
  returns false or throws.) So a mutation of the signature that only respells its hex
  digits is accepted.
\<close>

theorem custody_chain_integrity:
  assumes "chain = map (entry_of c) args" and "i < length chain"
  shows "verifyChain c chain = Inr True \<and>
    (content e' \<noteq> content (chain ! i) \<and> e_signature e' = e_signature (chain ! i) \<and>
       \<not> mac_collision c (JSON_stringify_entry e') (JSON_stringify_entry (chain ! i))
     \<longrightarrow> verifyChain c (chain [i := e']) \<noteq> Inr True) \<and>
    (content e' = content (chain ! i) \<longrightarrow>
       (verifyChain c (chain [i := e']) = Inr True
        \<longleftrightarrow> Buffer_from_hex (e_signature e') = Buffer_from_hex (e_signature (chain ! i))))"
proof -
  let ?e = "chain ! i"
  have ok: "verifyChain c chain = Inr True"
    using assms(1) by (simp add: generated_chain_verifies)
  have e: "?e = entry_of c (args ! i)"
    using assms by simp
  have sig: "Buffer_from_hex (e_signature ?e) =
      createHmac_sha256 (crypto c) (encryptionKey c) (JSON_stringify_entry ?e)"
    unfolding e by (rule generated_signature)
  have upd: "verifyChain c (chain [i := e']) = Inr True \<longleftrightarrow>
      Buffer_from_hex (e_signature e') =
        createHmac_sha256 (crypto c) (encryptionKey c) (JSON_stringify_entry e')"
    using verifyChain_update [OF assms(2) ok] by (simp add: verifySignature_iff)
  have A: "verifyChain c (chain [i := e']) \<noteq> Inr True"
    if "content e' \<noteq> content ?e" "e_signature e' = e_signature ?e"
      "\<not> mac_collision c (JSON_stringify_entry e') (JSON_stringify_entry ?e)"
  proof -
    from that(1) have "JSON_stringify_entry e' \<noteq> JSON_stringify_entry ?e"
      using JSON_stringify_entry_inj by blast
    with that(3) have "createHmac_sha256 (crypto c) (encryptionKey c) (JSON_stringify_entry e')
        \<noteq> createHmac_sha256 (crypto c) (encryptionKey c) (JSON_stringify_entry ?e)"
      by (simp add: mac_collision_def)
    with sig that(2) show ?thesis by (simp add: upd)
  qed
  have B: "verifyChain c (chain [i := e']) = Inr True
        \<longleftrightarrow> Buffer_from_hex (e_signature e') = Buffer_from_hex (e_signature ?e)"
    if "content e' = content ?e"
  proof -
    from that have "JSON_stringify_entry e' = JSON_stringify_entry ?e"
      by (simp add: content_def JSON_stringify_entry_def)
    then show ?thesis by (simp add: upd sig)
  qed
  from ok A B show ?thesis by blast
qed

theorem custody_chain_integrity_witness:
  "verifyChain demo_client [demo_entry] = Inr True \<and>
   verifyChain demo_client [demo_entry \<lparr> e_user := ''mallory'' \<rparr>] \<noteq> Inr True \<and>
   verifyChain demo_client [demo_entry \<lparr> e_signature := ''00'' \<rparr>] \<noteq> Inr True"
proof -
  have i: "0 < length [demo_entry]" by simp
  have "Buffer_from_hex (e_signature demo_entry) =
      createHmac_sha256 (crypto demo_client) (encryptionKey demo_client) (JSON_stringify_entry demo_entry)"
    using generated_signature [of demo_client "(''t0'', ''e1'', ''STORE'', ''alice'', None)"]
    by (simp add: demo_entry_def entry_of_def)
  then have "hd (Buffer_from_hex (e_signature demo_entry)) = 1"
    by (simp add: demo_client_def demo_crypto_def)
  moreover have "hd (Buffer_from_hex ''00'') = 0"
    by (simp add: unhex_def)
  ultimately have sig: "Buffer_from_hex ''00'' \<noteq> Buffer_from_hex (e_signature demo_entry)"
    by fastforce
  have user: "content (demo_entry \<lparr> e_user := ''mallory'' \<rparr>) \<noteq> content demo_entry"
    by (simp add: content_def demo_entry_def generateChainOfCustodyEntry_def)
  have c2: "content (demo_entry \<lparr> e_signature := ''00'' \<rparr>) = content demo_entry"
    by (simp add: content_def)
  from custody_chain_integrity [OF demo_entry_generated i, of "demo_entry \<lparr> e_user := ''mallory'' \<rparr>"]
    user demo_mac_no_collision
  have 1: "verifyChain demo_client [demo_entry] = Inr True"
    and 2: "verifyChain demo_client [demo_entry \<lparr> e_user := ''mallory'' \<rparr>] \<noteq> Inr True"
    by simp_all
  from custody_chain_integrity [OF demo_entry_generated i, of "demo_entry \<lparr> e_signature := ''00'' \<rparr>"]
    c2 sig
  have 3: "verifyChain demo_client [demo_entry \<lparr> e_signature := ''00'' \<rparr>] \<noteq> Inr True"
    by simp
  from 1 2 3 show ?thesis by blast
qed

text \<open>
  C1 as stated fails: writing the signature of a generated entry in upper case changes
  the entry, and the chain still verifies. The lemma \<open>verifySignature_toUpperCase\<close> shows
  that this does not depend on the MAC.
\<close>

theorem custody_signature_case_counterexample:
  "demo_entry \<lparr> e_signature := toUpperCase (e_signature demo_entry) \<rparr> \<noteq> demo_entry \<and>
   content (demo_entry \<lparr> e_signature := toUpperCase (e_signature demo_entry) \<rparr>) = content demo_entry \<and>
   verifyChain demo_client [demo_entry] = Inr True \<and>
   verifyChain demo_client [demo_entry \<lparr> e_signature := toUpperCase (e_signature demo_entry) \<rparr>] = Inr True"
proof -
  let ?e' = "demo_entry \<lparr> e_signature := toUpperCase (e_signature demo_entry) \<rparr>"
  have "take 8 (toUpperCase (e_signature demo_entry)) = toUpperCase (take 8 (e_signature demo_entry))"
    by (simp add: toUpperCase_def take_map)
  also have "\<dots> = ''0102037B''"
    by (simp add: demo_signature_head) (simp add: toUpperCase_def char_of_def bit_0)
  finally have "take 8 (toUpperCase (e_signature demo_entry)) \<noteq> take 8 (e_signature demo_entry)"
    by (simp add: demo_signature_head)
  then have "toUpperCase (e_signature demo_entry) \<noteq> e_signature demo_entry"
    by auto
  then have 1: "?e' \<noteq> demo_entry"
    by (metis custody_entry.select_convs(6) custody_entry.surjective custody_entry.update_convs(6))
  have 2: "content ?e' = content demo_entry"
    by (simp add: content_def)
  have 3: "verifyChain demo_client [demo_entry] = Inr True"
    unfolding demo_entry_generated by (rule generated_chain_verifies)
  have "verifySignature demo_client (JSON_stringify_entry demo_entry) (e_signature demo_entry) = Inr True"
    using 3 unfolding verifyChain_iff by simp
  then have 4: "verifyChain demo_client [?e'] = Inr True"
    unfolding verifyChain_iff verifySignature_iff by (simp add: Buffer_from_hex_toUpperCase)
  from 1 2 3 4 show ?thesis by blast
qed

section \<open>The encryption envelope (C2, C9)\<close>






section \<open>The operations on the bucket\<close>

subsection \<open>The bucket\<close>

lemma map_of_insert_object:
  "k \<notin> set (map fst xs) \<Longrightarrow>
   map_of (insert_object k v xs) k' = (if k' = k then Some v else map_of xs k')"
  by (induction xs) auto

lemma map_of_replace_same:
  "k \<in> set (map fst xs) \<Longrightarrow>
   map_of (map (\<lambda>(k', v'). if k' = k then (k', v) else (k', v')) xs) k = Some v"
proof (induction xs)
  case Nil
  then show ?case by simp
next
  case (Cons x xs)
  obtain a b where x: "x = (a, b)" by (cases x)
  show ?case
  proof (cases "a = k")
    case True
    with x show ?thesis by simp
  next
    case False
    with Cons x show ?thesis by simp
  qed
qed

lemma map_of_replace_other:
  "k' \<noteq> k \<Longrightarrow>
   map_of (map (\<lambda>(k'', v'). if k'' = k then (k'', v) else (k'', v')) xs) k' = map_of xs k'"
proof (induction xs)
  case Nil
  then show ?case by simp
next
  case (Cons x xs)
  obtain a b where x: "x = (a, b)" by (cases x)
  from Cons x show ?case by simp
qed

lemma keys_replace:
  "map fst (map (\<lambda>(k', v'). if k' = k then (k', v) else (k', v')) xs) = map fst xs"
proof (induction xs)
  case Nil
  then show ?case by simp
next
  case (Cons x xs)
  obtain a b where x: "x = (a, b)" by (cases x)
  from Cons x show ?case by simp
qed

lemma map_of_put_object: "map_of (put_object k v xs) k = Some v"
  using map_of_insert_object [of k xs v k] map_of_replace_same [of k xs v]
  by (simp add: put_object_def del: set_map)

lemma map_of_put_object_other: "k' \<noteq> k \<Longrightarrow> map_of (put_object k v xs) k' = map_of xs k'"
  using map_of_insert_object [of k xs v k'] map_of_replace_other [of k' k v xs]
  by (simp add: put_object_def del: set_map)

lemma keys_put_object_existing:
  "k \<in> set (map fst xs) \<Longrightarrow> map fst (put_object k v xs) = map fst xs"
  using keys_replace [of k v xs] by (simp add: put_object_def del: set_map)

lemma findEvidenceKey_cases:
  "(\<exists>msg. findEvidenceKey Contents evidenceId = Inl (Error msg)) \<or>
   (\<exists>k. findEvidenceKey Contents evidenceId = Inr k \<and> k \<in> set Contents \<and> endsWith k (''/'' @ evidenceId))"
proof (cases "filter (\<lambda>Key. endsWith Key (''/'' @ evidenceId)) Contents")
  case Nil
  then show ?thesis by (simp add: findEvidenceKey_def)
next
  case (Cons k ks)
  then have "k \<in> set (filter (\<lambda>Key. endsWith Key (''/'' @ evidenceId)) Contents)" by simp
  then have "k \<in> set Contents" "endsWith k (''/'' @ evidenceId)" by simp_all
  moreover from Cons have "findEvidenceKey Contents evidenceId = Inr k"
    by (simp add: findEvidenceKey_def)
  ultimately show ?thesis by blast
qed

lemma findEvidenceKey_single:
  "endsWith k (''/'' @ evidenceId) \<Longrightarrow> findEvidenceKey [k] evidenceId = Inr k"
  by (simp add: findEvidenceKey_def)

lemma endsWith_append: "endsWith (t @ s) s"
  by (simp add: endsWith_def)

lemma findEvidenceKey_unique:
  assumes "k \<in> set Contents" and "endsWith k (''/'' @ evidenceId)"
    and "\<forall>k' \<in> set Contents. endsWith k' (''/'' @ evidenceId) \<longrightarrow> k' = k"
  shows "findEvidenceKey Contents evidenceId = Inr k"
proof -
  let ?ks = "filter (\<lambda>Key. endsWith Key (''/'' @ evidenceId)) Contents"
  from assms(1,2) have "k \<in> set ?ks" by simp
  then have "?ks \<noteq> []" by (metis empty_iff empty_set)
  then obtain k' ks where ks: "?ks = k' # ks" by (cases ?ks) blast+
  then have "k' \<in> set ?ks" by simp
  with assms(3) have "k' = k" by simp
  with ks show ?thesis by (simp add: findEvidenceKey_def)
qed

lemma send_GetObject_found:
  "send_GetObject k w = Inr obj \<Longrightarrow> map_of (objects w) k = Some obj"
  by (auto simp: send_GetObject_def split: option.splits)

subsection \<open>Names that the module does not bind\<close>

lemma resolve_HeadObjectCommand:
  "resolve ''HeadObjectCommand'' = Inl (ReferenceError ''HeadObjectCommand is not defined'')"
  by (simp add: resolve_def module_scope_def)

lemma fileExists_False: "fileExists p w = False"
  by (simp add: fileExists_def resolve_def module_scope_def)

lemma getEvidenceMetadata_throws: "isl (fst (getEvidenceMetadata evidenceId w))"
  using findEvidenceKey_cases [of "take 1000 (map fst (objects w))" evidenceId]
  by (auto simp: getEvidenceMetadata_def getEvidenceMetadata_try_def catch_log_def
      resolve_HeadObjectCommand send_ListObjectsV2_def split: sum.splits option.splits)

lemma getEvidenceMetadata_objects: "objects (snd (getEvidenceMetadata evidenceId w)) = objects w"
  using findEvidenceKey_cases [of "take 1000 (map fst (objects w))" evidenceId]
  by (auto simp: getEvidenceMetadata_def getEvidenceMetadata_try_def catch_log_def logger_error_def
      resolve_HeadObjectCommand send_ListObjectsV2_def split: sum.splits option.splits)

lemma getChainOfCustody_throws: "isl (fst (getChainOfCustody c evidenceId w))"
proof -
  obtain err w' where "getEvidenceMetadata evidenceId w = (Inl err, w')"
    using getEvidenceMetadata_throws [of evidenceId w]
    by (cases "getEvidenceMetadata evidenceId w") (auto simp: isl_def)
  then show ?thesis
    by (simp add: getChainOfCustody_def getChainOfCustody_try_def catch_log_def)
qed

lemma matches_iff:
  "matches c fs md \<longleftrightarrow>
     (truthy (f_type fs) \<longrightarrow> Some (m_type md) = f_type fs) \<and>
     (truthy (f_caseId fs) \<longrightarrow> m_caseId md = f_caseId fs) \<and>
     (truthy (f_dateFrom fs) \<longrightarrow>
        \<not> date_less (Date_valueOf c (m_timestamp md)) (Date_valueOf c (js_or (f_dateFrom fs) []))) \<and>
     (truthy (f_dateTo fs) \<longrightarrow>
        \<not> date_less (Date_valueOf c (js_or (f_dateTo fs) [])) (Date_valueOf c (m_timestamp md))) \<and>
     (\<forall>tags. f_tags fs = Some tags \<and> tags \<noteq> [] \<longrightarrow> (\<exists>tag \<in> set tags. tag \<in> set (m_tags md)))"
  by (auto simp: matches_def Let_def list_ex_iff split: option.splits)

lemma searchEvidence_empty:
  "send_ListObjectsV2 w = Inr [] \<Longrightarrow> searchEvidence c fs w = (Inr [], w)"
  by (simp add: searchEvidence_def searchEvidence_try_def catch_log_def)

lemma searchEvidence_nonempty:
  "send_ListObjectsV2 w = Inr (k # ks) \<Longrightarrow>
   searchEvidence c fs w =
     (Inl (ReferenceError ''HeadObjectCommand is not defined''),
      logger_error ''Error searching evidence: HeadObjectCommand is not defined'' w)"
  by (simp add: searchEvidence_def searchEvidence_try_def catch_log_def resolve_HeadObjectCommand)

lemma searchEvidence_rejected:
  "send_ListObjectsV2 w = Inl err \<Longrightarrow>
   searchEvidence c fs w = (Inl err, logger_error (''Error searching evidence: '' @ message err) w)"
  by (simp add: searchEvidence_def searchEvidence_try_def catch_log_def)

subsection \<open>What a successful store and a successful retrieve do\<close>

lemma storeEvidence_Buffer:
  assumes "encryptData c (randomBytes_16 ev) b = Inr enc"
    and "s3_rejects w ''PutObjectCommand'' = None"
  shows "\<exists>r w'. storeEvidence c ev (Buffer b) md usr w = (Inr r, w') \<and>
     r_evidenceId r = js_or (in_evidenceId md) (uuidv4 ev) \<and>
     m_evidenceId (r_metadata r) = spread (in_evidenceId md) (r_evidenceId r) \<and>
     m_type (r_metadata r) = spread (in_type md) (js_or (in_type md) evidenceTypes_OTHER) \<and>
     m_description (r_metadata r) = in_description md \<and>
     m_caseId (r_metadata r) = in_caseId md \<and>
     m_chainOfCustody (r_metadata r) =
       [generateChainOfCustodyEntry c (now_entry ev) (r_evidenceId r) ''STORE'' usr
          (Some (''Initial storage of evidence '' @ js_or (in_description md) []))] \<and>
     m_iv (r_metadata r) = iv enc \<and> m_authTag (r_metadata r) = authTag enc \<and>
     m_hash_sha256 (r_metadata r) = toString_hex (createHash_sha256 (crypto c) b) \<and>
     objects w' =
       put_object (m_type (r_metadata r) @ ''/'' @ r_evidenceId r)
         \<lparr> Body = encryptedData enc, Metadata = Some (r_metadata r) \<rparr> (objects w) \<and>
     s3_rejects w' = s3_rejects w \<and> files w' = files w \<and> write_fails w' = write_fails w"
  using assms
  by (simp add: storeEvidence_def storeEvidence_try_def catch_log_def send_PutObject_def
      logger_info_def Let_def)

lemma storeEvidence_inv:
  assumes "storeEvidence c ev data md usr w = (Inr r, w')"
  shows "\<exists>b enc. data = Buffer b \<and> encryptData c (randomBytes_16 ev) b = Inr enc \<and>
     s3_rejects w ''PutObjectCommand'' = None"
proof (cases data)
  case (FilePath p)
  with assms show ?thesis
    by (simp add: storeEvidence_def storeEvidence_try_def catch_log_def fileExists_False Let_def)
next
  case (Buffer b)
  show ?thesis
  proof (cases "encryptData c (randomBytes_16 ev) b")
    case (Inl err)
    with assms Buffer show ?thesis
      by (simp add: storeEvidence_def storeEvidence_try_def catch_log_def Let_def)
  next
    case (Inr enc)
    show ?thesis
    proof (cases "s3_rejects w ''PutObjectCommand''")
      case None
      with Buffer Inr show ?thesis by simp
    next
      case (Some msg)
      with assms Buffer Inr show ?thesis
        by (simp add: storeEvidence_def storeEvidence_try_def catch_log_def send_PutObject_def Let_def)
    qed
  qed
qed

lemma retrieveEvidence_success:
  assumes "send_ListObjectsV2 w = Inr Contents"
    and "findEvidenceKey Contents evidenceId = Inr s3Key"
    and "send_GetObject s3Key w = Inr response"
    and "Metadata response = Some md"
    and "decryptData c (Body response) (m_iv md) (m_authTag md) = Inr decryptedData"
    and "toString_hex (createHash_sha256 (crypto c) decryptedData) = m_hash_sha256 md"
    and "s3_rejects w ''PutObjectCommand'' = None"
  shows "retrieveEvidence c ev evidenceId usr None w =
      (Inr \<lparr> rr_evidenceId = evidenceId,
             rr_metadata = md \<lparr> m_chainOfCustody := m_chainOfCustody md @
               [generateChainOfCustodyEntry c (now_entry ev) evidenceId ''RETRIEVE'' usr
                  (Some (''Evidence retrieved by '' @ usr))] \<rparr>,
             rr_data = decryptedData \<rparr>,
       logger_info (''Evidence with ID '' @ evidenceId @ '' retrieved by '' @ usr)
         (w \<lparr> objects := put_object s3Key
              \<lparr> Body = Body response,
                Metadata = Some (md \<lparr> m_chainOfCustody := m_chainOfCustody md @
                  [generateChainOfCustodyEntry c (now_entry ev) evidenceId ''RETRIEVE'' usr
                     (Some (''Evidence retrieved by '' @ usr))] \<rparr>) \<rparr> (objects w) \<rparr>))"
  using assms
  by (simp add: retrieveEvidence_def retrieveEvidence_try_def catch_log_def JSON_parse_metadata_def
      send_PutObject_def Let_def)

lemma retrieveEvidence_inv:
  assumes "retrieveEvidence c ev evidenceId usr outputPath w = (Inr res, w')"
  shows "\<exists>s3Key obj md.
      findEvidenceKey (take 1000 (map fst (objects w))) evidenceId = Inr s3Key \<and>
      map_of (objects w) s3Key = Some obj \<and> Metadata obj = Some md \<and>
      objects w' = put_object s3Key
        \<lparr> Body = Body obj,
          Metadata = Some (md \<lparr> m_chainOfCustody := m_chainOfCustody md @
            [generateChainOfCustodyEntry c (now_entry ev) evidenceId ''RETRIEVE'' usr
               (Some (''Evidence retrieved by '' @ usr))] \<rparr>) \<rparr> (objects w) \<and>
      s3_rejects w' = s3_rejects w"
proof -
  from assms have tr: "retrieveEvidence_try c ev evidenceId usr outputPath w = (Inr res, w')"
    by (auto simp: retrieveEvidence_def catch_log_def split: sum.splits prod.splits)
  then obtain Contents where list: "send_ListObjectsV2 w = Inr Contents"
    by (cases "send_ListObjectsV2 w") (simp_all add: retrieveEvidence_try_def)
  then have Contents: "Contents = take 1000 (map fst (objects w))"
    by (auto simp: send_ListObjectsV2_def split: option.splits)
  from tr list obtain s3Key where find: "findEvidenceKey Contents evidenceId = Inr s3Key"
    by (cases "findEvidenceKey Contents evidenceId") (simp_all add: retrieveEvidence_try_def)
  from tr list find obtain obj where get: "send_GetObject s3Key w = Inr obj"
    by (cases "send_GetObject s3Key w") (simp_all add: retrieveEvidence_try_def)
  from tr list find get obtain md where md: "Metadata obj = Some md"
    by (cases "Metadata obj") (simp_all add: retrieveEvidence_try_def JSON_parse_metadata_def)
  from tr list find get md obtain d where dec: "decryptData c (Body obj) (m_iv md) (m_authTag md) = Inr d"
    by (cases "decryptData c (Body obj) (m_iv md) (m_authTag md)")
      (simp_all add: retrieveEvidence_try_def JSON_parse_metadata_def)
  from tr list find get md dec
  have sha: "toString_hex (createHash_sha256 (crypto c) d) = m_hash_sha256 md"
    by (auto simp: retrieveEvidence_try_def JSON_parse_metadata_def Let_def split: if_splits)
  from tr list find get md dec sha have put: "s3_rejects w ''PutObjectCommand'' = None"
    by (cases "s3_rejects w ''PutObjectCommand''")
      (simp_all add: retrieveEvidence_try_def JSON_parse_metadata_def Let_def send_PutObject_def)
  from tr list find get md dec sha put
  have "objects w' = put_object s3Key
        \<lparr> Body = Body obj,
          Metadata = Some (md \<lparr> m_chainOfCustody := m_chainOfCustody md @
            [generateChainOfCustodyEntry c (now_entry ev) evidenceId ''RETRIEVE'' usr
               (Some (''Evidence retrieved by '' @ usr))] \<rparr>) \<rparr> (objects w)"
    and "s3_rejects w' = s3_rejects w"
    by (auto simp: retrieveEvidence_try_def JSON_parse_metadata_def Let_def send_PutObject_def
        write_output_def logger_info_def split: option.splits if_splits list.splits)
  with find Contents send_GetObject_found [OF get] md show ?thesis by blast
qed

lemma addCustodyEvent_success:
  assumes "send_ListObjectsV2 w = Inr Contents"
    and "findEvidenceKey Contents evidenceId = Inr s3Key"
    and "send_GetObject s3Key w = Inr response"
    and "Metadata response = Some md"
    and "s3_rejects w ''PutObjectCommand'' = None"
  shows "\<exists>res w'. addCustodyEvent c ev evidenceId act usr descr w = (Inr res, w') \<and>
      objects w' = put_object s3Key
        \<lparr> Body = Body response,
          Metadata = Some (md \<lparr> m_chainOfCustody := m_chainOfCustody md @
            [generateChainOfCustodyEntry c (now_entry ev) evidenceId act usr descr] \<rparr>) \<rparr> (objects w) \<and>
      s3_rejects w' = s3_rejects w"
  using assms
  by (simp add: addCustodyEvent_def addCustodyEvent_try_def catch_log_def JSON_parse_metadata_def
      send_PutObject_def Let_def logger_info_def)

lemma addCustodyEvent_inv:
  assumes "addCustodyEvent c ev evidenceId act usr descr w = (Inr res, w')"
  shows "\<exists>s3Key obj md.
      findEvidenceKey (take 1000 (map fst (objects w))) evidenceId = Inr s3Key \<and>
      map_of (objects w) s3Key = Some obj \<and> Metadata obj = Some md \<and>
      objects w' = put_object s3Key
        \<lparr> Body = Body obj,
          Metadata = Some (md \<lparr> m_chainOfCustody := m_chainOfCustody md @
            [generateChainOfCustodyEntry c (now_entry ev) evidenceId act usr descr] \<rparr>) \<rparr> (objects w) \<and>
      s3_rejects w' = s3_rejects w"
proof -
  from assms have tr: "addCustodyEvent_try c ev evidenceId act usr descr w = (Inr res, w')"
    by (auto simp: addCustodyEvent_def catch_log_def split: sum.splits prod.splits)
  then obtain Contents where list: "send_ListObjectsV2 w = Inr Contents"
    by (cases "send_ListObjectsV2 w") (simp_all add: addCustodyEvent_try_def)
  then have Contents: "Contents = take 1000 (map fst (objects w))"
    by (auto simp: send_ListObjectsV2_def split: option.splits)
  from tr list obtain s3Key where find: "findEvidenceKey Contents evidenceId = Inr s3Key"
    by (cases "findEvidenceKey Contents evidenceId") (simp_all add: addCustodyEvent_try_def)
  from tr list find obtain obj where get: "send_GetObject s3Key w = Inr obj"
    by (cases "send_GetObject s3Key w") (simp_all add: addCustodyEvent_try_def)
  from tr list find get obtain md where md: "Metadata obj = Some md"
    by (cases "Metadata obj") (simp_all add: addCustodyEvent_try_def JSON_parse_metadata_def)
  from tr list find get md have put: "s3_rejects w ''PutObjectCommand'' = None"
    by (cases "s3_rejects w ''PutObjectCommand''")
      (simp_all add: addCustodyEvent_try_def JSON_parse_metadata_def Let_def send_PutObject_def)
  from tr list find get md put
  have "objects w' = put_object s3Key
        \<lparr> Body = Body obj,
          Metadata = Some (md \<lparr> m_chainOfCustody := m_chainOfCustody md @
            [generateChainOfCustodyEntry c (now_entry ev) evidenceId act usr descr] \<rparr>) \<rparr> (objects w)"
    and "s3_rejects w' = s3_rejects w"
    by (auto simp: addCustodyEvent_try_def JSON_parse_metadata_def Let_def send_PutObject_def
        logger_info_def)
  with find Contents send_GetObject_found [OF get] md show ?thesis by blast
qed

lemma e_action_generated [simp]:
  "e_action (generateChainOfCustodyEntry c ts evidenceId act usr descr) = act"
  by (simp add: generateChainOfCustodyEntry_def)

lemma e_action_entry_of_op:
  "e_action (entry_of_op c evidenceId (ev, cop)) =
     (case cop of Retrieve usr outputPath \<Rightarrow> ''RETRIEVE'' | AddCustodyEvent act usr descr \<Rightarrow> act)"
  by (cases cop) simp_all

lemma run_op_appends:
  assumes "run_op c evidenceId op w = Some w'"
    and "findEvidenceKey (take 1000 (map fst (objects w))) evidenceId = Inr k"
    and "map_of (objects w) k = Some obj" and "Metadata obj = Some md"
  shows "objects w' = put_object k
        \<lparr> Body = Body obj,
          Metadata = Some (md \<lparr> m_chainOfCustody := m_chainOfCustody md @ [entry_of_op c evidenceId op] \<rparr>) \<rparr>
        (objects w)"
proof -
  obtain ev cop where op: "op = (ev, cop)" by (cases op)
  show ?thesis
  proof (cases cop)
    case (Retrieve usr outputPath)
    with assms(1) op obtain res where "retrieveEvidence c ev evidenceId usr outputPath w = (Inr res, w')"
      by (auto split: prod.splits sum.splits)
    from retrieveEvidence_inv [OF this] assms(2-4) op Retrieve show ?thesis by auto
  next
    case (AddCustodyEvent act usr descr)
    with assms(1) op obtain res where "addCustodyEvent c ev evidenceId act usr descr w = (Inr res, w')"
      by (auto split: prod.splits sum.splits)
    from addCustodyEvent_inv [OF this] assms(2-4) op AddCustodyEvent show ?thesis by auto
  qed
qed

lemma run_ops_chain:
  assumes "run_ops c evidenceId ops w = Some w'"
    and "findEvidenceKey (take 1000 (map fst (objects w))) evidenceId = Inr k"
    and "map_of (objects w) k = Some obj" and "Metadata obj = Some md"
  shows "map_of (objects w') k =
      Some \<lparr> Body = Body obj,
             Metadata = Some (md \<lparr> m_chainOfCustody := m_chainOfCustody md @ map (entry_of_op c evidenceId) ops \<rparr>) \<rparr>"
  using assms
proof (induction ops arbitrary: w obj md)
  case Nil
  then show ?case by simp
next
  case (Cons op ops)
  from Cons.prems(1) obtain w1 where step: "run_op c evidenceId op w = Some w1"
    and rest: "run_ops c evidenceId ops w1 = Some w'"
    by (auto split: option.splits)
  let ?md1 = "md \<lparr> m_chainOfCustody := m_chainOfCustody md @ [entry_of_op c evidenceId op] \<rparr>"
  let ?obj1 = "\<lparr> Body = Body obj, Metadata = Some ?md1 \<rparr>"
  have objs1: "objects w1 = put_object k ?obj1 (objects w)"
    using run_op_appends [OF step Cons.prems(2-4)] .
  from Cons.prems(3) have "k \<in> set (map fst (objects w))"
    by (metis map_of_eq_None_iff option.distinct(1) set_map)
  then have keys: "map fst (objects w1) = map fst (objects w)"
    by (simp add: objs1 keys_put_object_existing del: set_map)
  have find1: "findEvidenceKey (take 1000 (map fst (objects w1))) evidenceId = Inr k"
    using Cons.prems(2) by (simp add: keys)
  have get1: "map_of (objects w1) k = Some ?obj1"
    by (simp add: objs1 map_of_put_object)
  have "Metadata ?obj1 = Some ?md1" by simp
  from Cons.IH [OF rest find1 get1 this] show ?case by simp
qed

subsection \<open>The demonstration worlds\<close>

lemma demo_encryptData:
  "encryptData demo_client demo_iv [104, 105]
     = Inr \<lparr> iv = demo_iv_hex, encryptedData = [105, 106], authTag = demo_tag_hex \<rparr>"
  by (simp add: encryptData_def demo_client_def demo_crypto_def toString_hex_def hex_digit_def)

lemma demo_decryptData: "decryptData demo_client [105, 106] demo_iv_hex demo_tag_hex = Inr [104, 105]"
  by (simp add: decryptData_def demo_client_def demo_crypto_def unhex_def)

lemma demo_sha256: "toString_hex (createHash_sha256 (crypto demo_client) [104, 105]) = ''6869''"
  by (simp add: demo_client_def demo_crypto_def toString_hex_def hex_digit_def)

lemma world_pcap_objects:
  "\<exists>md. objects world_pcap = [(''pcap/u1'', \<lparr> Body = [105, 106], Metadata = Some md \<rparr>)] \<and>
     m_evidenceId md = ''u1'' \<and> m_type md = ''pcap'' \<and> m_iv md = demo_iv_hex \<and> m_authTag md = demo_tag_hex \<and>
     m_hash_sha256 md = ''6869'' \<and>
     m_chainOfCustody md =
       [generateChainOfCustodyEntry demo_client ''T1'' ''u1'' ''STORE'' ''alice''
          (Some ''Initial storage of evidence capture'')]"
proof -
  have enc: "encryptData demo_client (randomBytes_16 env0) [104, 105]
     = Inr \<lparr> iv = demo_iv_hex, encryptedData = [105, 106], authTag = demo_tag_hex \<rparr>"
    using demo_encryptData by (simp add: env0_def)
  have put: "s3_rejects world0 ''PutObjectCommand'' = None"
    by (simp add: world0_def)
  have sha: "toString_hex (createHash_sha256 (crypto demo_client) [104, 105]) = ''6869''"
    by (simp add: demo_client_def demo_crypto_def toString_hex_def hex_digit_def)
  from storeEvidence_Buffer [OF enc put, of "no_metadata \<lparr> in_type := Some ''pcap'', in_description := Some ''capture'' \<rparr>" "''alice''"]
  obtain r w' where
    "storeEvidence demo_client env0 (Buffer [104, 105])
       (no_metadata \<lparr> in_type := Some ''pcap'', in_description := Some ''capture'' \<rparr>) ''alice'' world0 = (Inr r, w')"
    and r: "r_evidenceId r = ''u1''" "m_evidenceId (r_metadata r) = ''u1''" "m_type (r_metadata r) = ''pcap''"
      "m_chainOfCustody (r_metadata r) =
       [generateChainOfCustodyEntry demo_client ''T1'' ''u1'' ''STORE'' ''alice''
          (Some ''Initial storage of evidence capture'')]"
      "m_iv (r_metadata r) = demo_iv_hex" "m_authTag (r_metadata r) = demo_tag_hex"
      "m_hash_sha256 (r_metadata r) = ''6869''"
    and "objects w' = put_object (m_type (r_metadata r) @ ''/'' @ r_evidenceId r)
         \<lparr> Body = [105, 106], Metadata = Some (r_metadata r) \<rparr> (objects world0)"
    by (auto simp: sha no_metadata_def env0_def js_or_def spread_def)
  then have "objects world_pcap = [(''pcap/u1'', \<lparr> Body = [105, 106], Metadata = Some (r_metadata r) \<rparr>)]"
    by (simp add: world_pcap_def world0_def put_object_def)
  with r show ?thesis by blast
qed

lemma world_pcap_lookup:
  obtains md where "objects world_pcap = [(''pcap/u1'', \<lparr> Body = [105, 106], Metadata = Some md \<rparr>)]"
    and "m_iv md = demo_iv_hex" and "m_authTag md = demo_tag_hex" and "m_hash_sha256 md = ''6869''"
    and "m_evidenceId md = ''u1''"
    and "m_chainOfCustody md =
       [generateChainOfCustodyEntry demo_client ''T1'' ''u1'' ''STORE'' ''alice''
          (Some ''Initial storage of evidence capture'')]"
  using world_pcap_objects by blast

lemma world_pcap_rejects: "s3_rejects world_pcap = (\<lambda>name. None)"
proof -
  have enc: "encryptData demo_client (randomBytes_16 env0) [104, 105]
     = Inr \<lparr> iv = demo_iv_hex, encryptedData = [105, 106], authTag = demo_tag_hex \<rparr>"
    using demo_encryptData by (simp add: env0_def)
  have put: "s3_rejects world0 ''PutObjectCommand'' = None"
    by (simp add: world0_def)
  from storeEvidence_Buffer [OF enc put, of "no_metadata \<lparr> in_type := Some ''pcap'', in_description := Some ''capture'' \<rparr>" "''alice''"]
  have "s3_rejects world_pcap = s3_rejects world0"
    by (auto simp: world_pcap_def)
  then show ?thesis by (simp add: world0_def)
qed

lemma demo_gcm_round_trip_client: "gcm_round_trip (crypto demo_client)"
  by (simp add: demo_client_def demo_gcm_round_trip)

lemma world_pcap_stored:
  obtains r where
    "storeEvidence demo_client env0 (Buffer [104, 105])
       (no_metadata \<lparr> in_type := Some ''pcap'', in_description := Some ''capture'' \<rparr>) ''alice'' world0
     = (Inr r, world_pcap)"
    and "r_evidenceId r = ''u1''" and "m_type (r_metadata r) = ''pcap''"
proof -
  have enc: "encryptData demo_client (randomBytes_16 env0) [104, 105]
     = Inr \<lparr> iv = demo_iv_hex, encryptedData = [105, 106], authTag = demo_tag_hex \<rparr>"
    using demo_encryptData by (simp add: env0_def)
  have put: "s3_rejects world0 ''PutObjectCommand'' = None"
    by (simp add: world0_def)
  from storeEvidence_Buffer [OF enc put, of "no_metadata \<lparr> in_type := Some ''pcap'', in_description := Some ''capture'' \<rparr>" "''alice''"]
  obtain r w' where st:
    "storeEvidence demo_client env0 (Buffer [104, 105])
       (no_metadata \<lparr> in_type := Some ''pcap'', in_description := Some ''capture'' \<rparr>) ''alice'' world0 = (Inr r, w')"
    and r: "r_evidenceId r = ''u1''" "m_type (r_metadata r) = ''pcap''"
    by (auto simp: no_metadata_def env0_def js_or_def spread_def)
  from st have "world_pcap = w'" by (simp add: world_pcap_def)
  with st r that show ?thesis by blast
qed

lemma demo_encryptData_2:
  "encryptData demo_client demo_iv2 [1, 2]
     = Inr \<lparr> iv = demo_iv2_hex, encryptedData = [2, 3], authTag = demo_tag2_hex \<rparr>"
  by (simp add: encryptData_def demo_client_def demo_crypto_def toString_hex_def hex_digit_def)

lemma demo_decryptData_2: "decryptData demo_client [2, 3] demo_iv2_hex demo_tag2_hex = Inr [1, 2]"
  by (simp add: decryptData_def demo_client_def demo_crypto_def unhex_def)

lemma demo_sha256_2: "toString_hex (createHash_sha256 (crypto demo_client) [1, 2]) = ''0102''"
  by (simp add: demo_client_def demo_crypto_def toString_hex_def hex_digit_def)

lemma second_store:
  assumes "i \<noteq> []"
  defines "w \<equiv> snd (storeEvidence demo_client env1 (Buffer [1, 2])
            (no_metadata \<lparr> in_evidenceId := Some i, in_type := Some ''log'' \<rparr>) ''eve'' world_pcap)"
  shows "\<exists>mdA. objects w =
       (''log/'' @ i, \<lparr> Body = [2, 3], Metadata = Some mdA \<rparr>) # objects world_pcap \<and>
     m_evidenceId mdA = i \<and> m_iv mdA = demo_iv2_hex \<and> m_authTag mdA = demo_tag2_hex \<and>
     m_hash_sha256 mdA = ''0102'' \<and> s3_rejects w = (\<lambda>name. None)"
proof -
  obtain mdB where objs: "objects world_pcap = [(''pcap/u1'', \<lparr> Body = [105, 106], Metadata = Some mdB \<rparr>)]"
    by (rule world_pcap_lookup)
  have enc: "encryptData demo_client (randomBytes_16 env1) [1, 2]
     = Inr \<lparr> iv = demo_iv2_hex, encryptedData = [2, 3], authTag = demo_tag2_hex \<rparr>"
    using demo_encryptData_2 by (simp add: env1_def)
  have put: "s3_rejects world_pcap ''PutObjectCommand'' = None"
    by (simp add: world_pcap_rejects)
  from storeEvidence_Buffer [OF enc put, of "no_metadata \<lparr> in_evidenceId := Some i, in_type := Some ''log'' \<rparr>" "''eve''"]
  obtain r w' where st: "storeEvidence demo_client env1 (Buffer [1, 2])
            (no_metadata \<lparr> in_evidenceId := Some i, in_type := Some ''log'' \<rparr>) ''eve'' world_pcap = (Inr r, w')"
    and r: "r_evidenceId r = i" "m_evidenceId (r_metadata r) = i" "m_type (r_metadata r) = ''log''"
      "m_iv (r_metadata r) = demo_iv2_hex" "m_authTag (r_metadata r) = demo_tag2_hex"
      "m_hash_sha256 (r_metadata r) = ''0102''"
    and o: "objects w' = put_object (m_type (r_metadata r) @ ''/'' @ r_evidenceId r)
         \<lparr> Body = [2, 3], Metadata = Some (r_metadata r) \<rparr> (objects world_pcap)"
    and rej: "s3_rejects w' = s3_rejects world_pcap"
    using assms(1) by (auto simp: demo_sha256_2 js_or_def spread_def)
  from st have w: "w = w'" by (simp add: w_def)
  have "objects w = (''log/'' @ i, \<lparr> Body = [2, 3], Metadata = Some (r_metadata r) \<rparr>) # objects world_pcap"
    by (simp add: w o r objs put_object_def)
  with r rej w show ?thesis by (simp add: world_pcap_rejects)
qed

lemma second_store_retrieve:
  assumes "i \<noteq> []" and "endsWith (''log/'' @ i) ''/u1''"
  defines "w \<equiv> snd (storeEvidence demo_client env1 (Buffer [1, 2])
            (no_metadata \<lparr> in_evidenceId := Some i, in_type := Some ''log'' \<rparr>) ''eve'' world_pcap)"
  shows "map fst (objects w) = [''log/'' @ i, ''pcap/u1''] \<and>
     stored_chain w ''pcap/u1'' = stored_chain world_pcap ''pcap/u1'' \<and>
     map_option (map_option m_evidenceId \<circ> Metadata) (map_of (objects w) ''pcap/u1'') = Some (Some ''u1'') \<and>
     map_sum id rr_data (fst (retrieveEvidence demo_client env0 ''u1'' ''bob'' None w)) = Inr [1, 2] \<and>
     map_sum id (m_evidenceId \<circ> rr_metadata) (fst (retrieveEvidence demo_client env0 ''u1'' ''bob'' None w)) = Inr i \<and>
     (\<exists>w'. run_ops demo_client ''u1'' [(env0, Retrieve ''bob'' None)] w = Some w' \<and>
           stored_chain w' ''pcap/u1'' = stored_chain world_pcap ''pcap/u1'')"
proof -
  obtain mdB where objsB: "objects world_pcap = [(''pcap/u1'', \<lparr> Body = [105, 106], Metadata = Some mdB \<rparr>)]"
    and mdB: "m_evidenceId mdB = ''u1''"
    by (rule world_pcap_lookup)
  from second_store [OF assms(1)] obtain mdA where objs: "objects w =
       (''log/'' @ i, \<lparr> Body = [2, 3], Metadata = Some mdA \<rparr>) # objects world_pcap"
    and md: "m_evidenceId mdA = i" "m_iv mdA = demo_iv2_hex" "m_authTag mdA = demo_tag2_hex"
     "m_hash_sha256 mdA = ''0102''"
    and rej: "s3_rejects w = (\<lambda>name. None)"
    unfolding w_def by blast
  have keep: "map_of (objects w) ''pcap/u1'' = map_of (objects world_pcap) ''pcap/u1''"
    by (simp add: objs)
  have list: "send_ListObjectsV2 w = Inr [''log/'' @ i, ''pcap/u1'']"
    by (simp add: send_ListObjectsV2_def rej objs objsB)
  have find: "findEvidenceKey [''log/'' @ i, ''pcap/u1''] ''u1'' = Inr (''log/'' @ i)"
    using assms(2) by (simp add: findEvidenceKey_def)
  have get: "send_GetObject (''log/'' @ i) w = Inr \<lparr> Body = [2, 3], Metadata = Some mdA \<rparr>"
    by (simp add: send_GetObject_def rej objs)
  have put: "s3_rejects w ''PutObjectCommand'' = None"
    by (simp add: rej)
  from retrieveEvidence_success [OF list find get _ _ _ put, of mdA demo_client "[1, 2]" env0 "''bob''"]
  obtain res w' where r: "retrieveEvidence demo_client env0 ''u1'' ''bob'' None w = (Inr res, w')"
    and res: "rr_data res = [1, 2]" "m_evidenceId (rr_metadata res) = i"
    and o: "objects w' = put_object (''log/'' @ i)
       \<lparr> Body = [2, 3], Metadata = Some (mdA \<lparr> m_chainOfCustody := m_chainOfCustody mdA @
               [generateChainOfCustodyEntry demo_client (now_entry env0) ''u1'' ''RETRIEVE'' ''bob''
                  (Some (''Evidence retrieved by '' @ ''bob''))] \<rparr>) \<rparr> (objects w)"
    by (simp add: md demo_decryptData_2 demo_sha256_2 logger_info_def)
  have run: "run_ops demo_client ''u1'' [(env0, Retrieve ''bob'' None)] w = Some w'"
    by (simp add: r)
  have "map_of (objects w') ''pcap/u1'' = map_of (objects w) ''pcap/u1''"
    by (simp add: o map_of_put_object_other)
  with keep have c1: "stored_chain w' ''pcap/u1'' = stored_chain world_pcap ''pcap/u1''"
    by (simp add: stored_chain_def)
  from keep have c0: "stored_chain w ''pcap/u1'' = stored_chain world_pcap ''pcap/u1''"
    by (simp add: stored_chain_def)
  have keys: "map fst (objects w) = [''log/'' @ i, ''pcap/u1'']"
    by (simp add: objs objsB)
  have own: "map_option (map_option m_evidenceId \<circ> Metadata) (map_of (objects w) ''pcap/u1'') = Some (Some ''u1'')"
    by (simp add: keep objsB mdB)
  from keys c0 own r res run c1 show ?thesis by simp
qed

lemma world_pcap_chain:
  "map_option (map e_action) (stored_chain world_pcap ''pcap/u1'') = Some [''STORE'']"
proof -
  obtain md where "objects world_pcap = [(''pcap/u1'', \<lparr> Body = [105, 106], Metadata = Some md \<rparr>)]"
    and "m_chainOfCustody md =
       [generateChainOfCustodyEntry demo_client ''T1'' ''u1'' ''STORE'' ''alice''
          (Some ''Initial storage of evidence capture'')]"
    by (rule world_pcap_lookup)
  then show ?thesis by (simp add: stored_chain_def)
qed

section \<open>Metadata lookups (C10, C7)\<close>

text \<open>
  C10. \<open>getEvidenceMetadata\<close> and \<open>getChainOfCustody\<close> throw on every input and in every
  state of the bucket: when the object is found, \<open>new HeadObjectCommand\<close> is evaluated,
  and the module does not bind that name. \<open>searchEvidence\<close> throws whenever the listing
  is not the empty list (it fails, or it has a key and the loop evaluates
  \<open>new HeadObjectCommand\<close>); when the listing is empty it returns the empty list,
  before the loop.
\<close>

theorem metadata_lookups_throw:
  "isl (fst (getEvidenceMetadata evidenceId w)) \<and>
   isl (fst (getChainOfCustody c evidenceId w)) \<and>
   (send_ListObjectsV2 w \<noteq> Inr [] \<longrightarrow> isl (fst (searchEvidence c fs w))) \<and>
   (send_ListObjectsV2 w = Inr [] \<longrightarrow> searchEvidence c fs w = (Inr [], w))"
proof -
  have "isl (fst (searchEvidence c fs w))" if "send_ListObjectsV2 w \<noteq> Inr []"
  proof (cases "send_ListObjectsV2 w")
    case (Inl err)
    then show ?thesis by (simp add: searchEvidence_rejected)
  next
    case (Inr ks)
    with that obtain k ks' where "ks = k # ks'" by (cases ks) auto
    with Inr show ?thesis by (simp add: searchEvidence_nonempty)
  qed
  then show ?thesis
    using getEvidenceMetadata_throws getChainOfCustody_throws searchEvidence_empty by blast
qed

text \<open>The four cases on the bucket with one artifact and on the empty bucket.\<close>

theorem metadata_lookups_throw_witness:
  "isl (fst (getEvidenceMetadata ''u1'' world_pcap)) \<and>
   isl (fst (getChainOfCustody demo_client ''u1'' world_pcap)) \<and>
   isl (fst (searchEvidence demo_client no_filters world_pcap)) \<and>
   searchEvidence demo_client no_filters world0 = (Inr [], world0)"
proof -
  have 1: "send_ListObjectsV2 world0 = Inr []"
    by (simp add: send_ListObjectsV2_def world0_def)
  have "objects world_pcap \<noteq> []"
    using world_pcap_objects by auto
  then have 2: "send_ListObjectsV2 world_pcap \<noteq> Inr []"
    by (simp add: send_ListObjectsV2_def split: option.splits)
  from metadata_lookups_throw [of "''u1''" world_pcap demo_client no_filters]
    metadata_lookups_throw [of "''u1''" world0 demo_client no_filters] 1 2
  show ?thesis by simp
qed

text \<open>
  C10 as stated fails for \<open>searchEvidence\<close> on the empty bucket, where it returns a
  result.
\<close>

theorem searchEvidence_empty_bucket_counterexample:
  "searchEvidence demo_client no_filters world0 = (Inr [], world0)"
  by (simp add: searchEvidence_def searchEvidence_try_def catch_log_def send_ListObjectsV2_def
      world0_def)

text \<open>
  C7. On the bucket that holds one artifact of type \<open>pcap\<close>, the search for the type
  \<open>pcap\<close> throws the \<open>ReferenceError\<close> instead of returning the artifact.
\<close>

theorem searchEvidence_throws_on_stored_pcap:
  "map (\<lambda>(k, obj). map_option m_type (Metadata obj)) (objects world_pcap) = [Some ''pcap''] \<and>
   fst (searchEvidence demo_client (no_filters \<lparr> f_type := Some ''pcap'' \<rparr>) world_pcap)
     = Inl (ReferenceError ''HeadObjectCommand is not defined'')"
proof -
  have "send_ListObjectsV2 world_pcap = Inr [''pcap/u1'']"
    using world_pcap_objects by (auto simp: send_ListObjectsV2_def world_pcap_rejects)
  then show ?thesis
    using world_pcap_objects by (auto simp: searchEvidence_nonempty)
qed

section \<open>Retrieval (C3, C4)\<close>

text \<open>
  C3. When the object is found and fetched, its ciphertext decrypts, and the digest of
  the decrypted bytes differs from the digest recorded in the metadata, then
  \<open>retrieveEvidence\<close> throws the integrity error, returns no data, and leaves the bucket
  (and the files) as they were: no \<open>RETRIEVE\<close> entry is appended and nothing is put.
\<close>

theorem retrieve_hash_mismatch:
  assumes "send_ListObjectsV2 w = Inr Contents"
    and "findEvidenceKey Contents evidenceId = Inr s3Key"
    and "send_GetObject s3Key w = Inr response"
    and "Metadata response = Some md"
    and "decryptData c (Body response) (m_iv md) (m_authTag md) = Inr decryptedData"
    and "toString_hex (createHash_sha256 (crypto c) decryptedData) \<noteq> m_hash_sha256 md"
  shows "retrieveEvidence c ev evidenceId usr outputPath w =
      (Inl (Error ''Evidence integrity check failed: hash mismatch''),
       logger_error ''Error retrieving evidence: Evidence integrity check failed: hash mismatch'' w) \<and>
     objects (snd (retrieveEvidence c ev evidenceId usr outputPath w)) = objects w \<and>
     files (snd (retrieveEvidence c ev evidenceId usr outputPath w)) = files w"
  using assms
  by (simp add: retrieveEvidence_def retrieveEvidence_try_def catch_log_def JSON_parse_metadata_def
      logger_error_def)

text \<open>The theorem on the bucket whose metadata records a wrong digest.\<close>

theorem retrieve_hash_mismatch_witness:
  "retrieveEvidence demo_client env1 ''u1'' ''bob'' None world_bad_digest
   = (Inl (Error ''Evidence integrity check failed: hash mismatch''),
      logger_error ''Error retrieving evidence: Evidence integrity check failed: hash mismatch''
        world_bad_digest)"
proof -
  obtain md where objs: "objects world_pcap = [(''pcap/u1'', \<lparr> Body = [105, 106], Metadata = Some md \<rparr>)]"
    and md: "m_iv md = demo_iv_hex" "m_authTag md = demo_tag_hex" "m_hash_sha256 md = ''6869''"
    by (rule world_pcap_lookup)
  let ?md = "md \<lparr> m_hash_sha256 := ''0000'' \<rparr>"
  let ?obj = "\<lparr> Body = [105, 106], Metadata = Some ?md \<rparr>"
  have objs': "objects world_bad_digest = [(''pcap/u1'', ?obj)]"
    by (simp add: world_bad_digest_def objs)
  have rej: "s3_rejects world_bad_digest = (\<lambda>name. None)"
    by (simp add: world_bad_digest_def world_pcap_rejects)
  have find: "findEvidenceKey [''pcap/u1''] ''u1'' = Inr ''pcap/u1''"
    by (simp add: findEvidenceKey_single endsWith_def)
  have list: "send_ListObjectsV2 world_bad_digest = Inr [''pcap/u1'']"
    by (simp add: send_ListObjectsV2_def rej objs')
  have get: "send_GetObject ''pcap/u1'' world_bad_digest = Inr ?obj"
    by (simp add: send_GetObject_def rej objs')
  have meta: "Metadata ?obj = Some ?md" by simp
  have dec: "decryptData demo_client (Body ?obj) (m_iv ?md) (m_authTag ?md) = Inr [104, 105]"
    by (simp add: md demo_decryptData)
  have sha: "toString_hex (createHash_sha256 (crypto demo_client) [104, 105]) \<noteq> m_hash_sha256 ?md"
    by (simp add: demo_sha256)
  from retrieve_hash_mismatch [OF list find get meta dec sha, of env1 "''bob''" None]
  show ?thesis by simp
qed

text \<open>
  C4. When decryption and the digest check succeed and the backend rejects the
  \<open>PutObject\<close> that re-persists the metadata, \<open>retrieveEvidence\<close> logs the error and throws
  it: the read fails, no data is returned, and the bucket is unchanged.
\<close>

theorem retrieve_repersist_failure:
  assumes "send_ListObjectsV2 w = Inr Contents"
    and "findEvidenceKey Contents evidenceId = Inr s3Key"
    and "send_GetObject s3Key w = Inr response"
    and "Metadata response = Some md"
    and "decryptData c (Body response) (m_iv md) (m_authTag md) = Inr decryptedData"
    and "toString_hex (createHash_sha256 (crypto c) decryptedData) = m_hash_sha256 md"
    and "s3_rejects w ''PutObjectCommand'' = Some msg"
  shows "retrieveEvidence c ev evidenceId usr outputPath w =
      (Inl (Error msg), logger_error (''Error retrieving evidence: '' @ msg) w) \<and>
     objects (snd (retrieveEvidence c ev evidenceId usr outputPath w)) = objects w"
  using assms
  by (simp add: retrieveEvidence_def retrieveEvidence_try_def catch_log_def JSON_parse_metadata_def
      logger_error_def send_PutObject_def Let_def)

text \<open>The theorem on the bucket with one artifact, with \<open>PutObject\<close> rejected.\<close>

theorem retrieve_repersist_failure_witness:
  "retrieveEvidence demo_client env1 ''u1'' ''bob'' None
     (rejecting ''PutObjectCommand'' ''Service Unavailable'' world_pcap)
   = (Inl (Error ''Service Unavailable''),
      logger_error ''Error retrieving evidence: Service Unavailable''
        (rejecting ''PutObjectCommand'' ''Service Unavailable'' world_pcap))"
proof -
  obtain md where objs: "objects world_pcap = [(''pcap/u1'', \<lparr> Body = [105, 106], Metadata = Some md \<rparr>)]"
    and md: "m_iv md = demo_iv_hex" "m_authTag md = demo_tag_hex" "m_hash_sha256 md = ''6869''"
    by (rule world_pcap_lookup)
  let ?w = "rejecting ''PutObjectCommand'' ''Service Unavailable'' world_pcap"
  have find: "findEvidenceKey [''pcap/u1''] ''u1'' = Inr ''pcap/u1''"
    by (simp add: findEvidenceKey_single endsWith_def)
  have list: "send_ListObjectsV2 ?w = Inr [''pcap/u1'']"
    by (simp add: send_ListObjectsV2_def rejecting_def world_pcap_rejects objs)
  have get: "send_GetObject ''pcap/u1'' ?w = Inr \<lparr> Body = [105, 106], Metadata = Some md \<rparr>"
    by (simp add: send_GetObject_def rejecting_def world_pcap_rejects objs)
  have put: "s3_rejects ?w ''PutObjectCommand'' = Some ''Service Unavailable''"
    by (simp add: rejecting_def)
  have meta: "Metadata \<lparr> Body = [105, 106], Metadata = Some md \<rparr> = Some md" by simp
  have dec: "decryptData demo_client (Body \<lparr> Body = [105, 106], Metadata = Some md \<rparr>) (m_iv md) (m_authTag md)
      = Inr [104, 105]"
    by (simp add: md demo_decryptData)
  have sha: "toString_hex (createHash_sha256 (crypto demo_client) [104, 105]) = m_hash_sha256 md"
    by (simp add: md demo_sha256)
  from retrieve_repersist_failure [OF list find get meta dec sha put, of env1 "''bob''" None]
  show ?thesis by simp
qed

text \<open>
  C4 as stated fails: the same retrieve that returns the data while \<open>PutObject\<close> works
  throws when \<open>PutObject\<close> is rejected.
\<close>

theorem repersist_failure_counterexample:
  "\<not> isl (fst (retrieveEvidence demo_client env1 ''u1'' ''bob'' None world_pcap)) \<and>
   fst (retrieveEvidence demo_client env1 ''u1'' ''bob'' None
          (rejecting ''PutObjectCommand'' ''Service Unavailable'' world_pcap))
     = Inl (Error ''Service Unavailable'')"
proof -
  obtain md where objs: "objects world_pcap = [(''pcap/u1'', \<lparr> Body = [105, 106], Metadata = Some md \<rparr>)]"
    and md: "m_iv md = demo_iv_hex" "m_authTag md = demo_tag_hex" "m_hash_sha256 md = ''6869''"
    by (rule world_pcap_lookup)
  let ?w = "rejecting ''PutObjectCommand'' ''Service Unavailable'' world_pcap"
  have find: "findEvidenceKey [''pcap/u1''] ''u1'' = Inr ''pcap/u1''"
    by (simp add: findEvidenceKey_single endsWith_def)
  have list: "send_ListObjectsV2 world_pcap = Inr [''pcap/u1'']"
    by (simp add: send_ListObjectsV2_def world_pcap_rejects objs)
  have get: "send_GetObject ''pcap/u1'' world_pcap = Inr \<lparr> Body = [105, 106], Metadata = Some md \<rparr>"
    by (simp add: send_GetObject_def world_pcap_rejects objs)
  have put: "s3_rejects world_pcap ''PutObjectCommand'' = None"
    by (simp add: world_pcap_rejects)
  have ok: "\<not> isl (fst (retrieveEvidence demo_client env1 ''u1'' ''bob'' None world_pcap))"
    using retrieveEvidence_success [OF list find get _ _ _ put, of md demo_client "[104, 105]" env1 "''bob''"]
    by (simp add: md demo_decryptData demo_sha256)
  have list': "send_ListObjectsV2 ?w = Inr [''pcap/u1'']"
    by (simp add: send_ListObjectsV2_def rejecting_def world_pcap_rejects objs)
  have get': "send_GetObject ''pcap/u1'' ?w = Inr \<lparr> Body = [105, 106], Metadata = Some md \<rparr>"
    by (simp add: send_GetObject_def rejecting_def world_pcap_rejects objs)
  have put': "s3_rejects ?w ''PutObjectCommand'' = Some ''Service Unavailable''"
    by (simp add: rejecting_def)
  have "fst (retrieveEvidence demo_client env1 ''u1'' ''bob'' None ?w) = Inl (Error ''Service Unavailable'')"
    using list' find get' put'
    by (simp add: retrieveEvidence_def retrieveEvidence_try_def catch_log_def JSON_parse_metadata_def
      send_PutObject_def Let_def md demo_decryptData demo_sha256)
  with ok show ?thesis by blast
qed

section \<open>Storing (C5)\<close>




section \<open>The storage key and the lookup by evidence id (C8)\<close>

text \<open>
  C8. After a store that returns, the ciphertext and the metadata are held under the
  key \<open>type/evidenceId\<close>, made of the type of the stored metadata and the returned
  evidence id (which is the \<open>evidenceId\<close> of the metadata unless the caller passed an
  empty one); the key ends in \<open>/evidenceId\<close>. \<open>retrieveEvidence\<close> takes the first listed
  key that ends in \<open>/evidenceId\<close>: when that key is the artifact's own, and the cipher
  decrypts what it encrypted, the retrieve returns the stored bytes and the metadata
  with one \<open>RETRIEVE\<close> entry appended.
\<close>

theorem stored_key_found_by_retrieve:
  assumes "storeEvidence c ev data md usr w = (Inr r, w')"
    and "gcm_round_trip (crypto c)"
    and "send_ListObjectsV2 w' = Inr Contents"
    and "findEvidenceKey Contents (r_evidenceId r) = Inr (m_type (r_metadata r) @ ''/'' @ r_evidenceId r)"
    and "s3_rejects w' ''GetObjectCommand'' = None"
  shows "\<exists>b ct. data = Buffer b \<and>
      map_of (objects w') (m_type (r_metadata r) @ ''/'' @ r_evidenceId r)
        = Some \<lparr> Body = ct, Metadata = Some (r_metadata r) \<rparr> \<and>
      endsWith (m_type (r_metadata r) @ ''/'' @ r_evidenceId r) (''/'' @ r_evidenceId r) \<and>
      (in_evidenceId md \<noteq> Some [] \<longrightarrow> m_evidenceId (r_metadata r) = r_evidenceId r) \<and>
      (\<exists>w''. retrieveEvidence c ev' (r_evidenceId r) usr' None w' =
         (Inr \<lparr> rr_evidenceId = r_evidenceId r,
                rr_metadata = (r_metadata r) \<lparr> m_chainOfCustody := m_chainOfCustody (r_metadata r) @
                  [generateChainOfCustodyEntry c (now_entry ev') (r_evidenceId r) ''RETRIEVE'' usr'
                     (Some (''Evidence retrieved by '' @ usr'))] \<rparr>,
                rr_data = b \<rparr>, w''))"
proof -
  let ?k = "m_type (r_metadata r) @ ''/'' @ r_evidenceId r"
  from storeEvidence_inv [OF assms(1)] obtain b enc
    where data: "data = Buffer b" and enc: "encryptData c (randomBytes_16 ev) b = Inr enc"
      and put: "s3_rejects w ''PutObjectCommand'' = None"
    by blast
  from storeEvidence_Buffer [OF enc put, of md usr] assms(1) data
  have id: "m_evidenceId (r_metadata r) = spread (in_evidenceId md) (r_evidenceId r)"
      "r_evidenceId r = js_or (in_evidenceId md) (uuidv4 ev)"
    and env: "m_iv (r_metadata r) = iv enc" "m_authTag (r_metadata r) = authTag enc"
      "m_hash_sha256 (r_metadata r) = toString_hex (createHash_sha256 (crypto c) b)"
    and objs: "objects w' = put_object ?k \<lparr> Body = encryptedData enc, Metadata = Some (r_metadata r) \<rparr> (objects w)"
    and rej: "s3_rejects w' = s3_rejects w"
    by auto
  have stored: "map_of (objects w') ?k = Some \<lparr> Body = encryptedData enc, Metadata = Some (r_metadata r) \<rparr>"
    by (simp add: objs map_of_put_object)
  have get: "send_GetObject ?k w' = Inr \<lparr> Body = encryptedData enc, Metadata = Some (r_metadata r) \<rparr>"
    using stored assms(5) by (simp add: send_GetObject_def)
  have meta: "Metadata \<lparr> Body = encryptedData enc, Metadata = Some (r_metadata r) \<rparr> = Some (r_metadata r)"
    by simp
  have dec: "decryptData c (Body \<lparr> Body = encryptedData enc, Metadata = Some (r_metadata r) \<rparr>)
      (m_iv (r_metadata r)) (m_authTag (r_metadata r)) = Inr b"
    using decryptData_encryptData [OF assms(2) enc] by (simp add: env)
  have sha: "toString_hex (createHash_sha256 (crypto c) b) = m_hash_sha256 (r_metadata r)"
    by (simp add: env)
  have put': "s3_rejects w' ''PutObjectCommand'' = None"
    by (simp add: rej put)
  have ident: "in_evidenceId md \<noteq> Some [] \<longrightarrow> m_evidenceId (r_metadata r) = r_evidenceId r"
    using id by (auto simp: spread_def js_or_def split: option.splits)
  have ends: "endsWith ?k (''/'' @ r_evidenceId r)"
    using endsWith_append [of "m_type (r_metadata r)" "''/'' @ r_evidenceId r"] by simp
  from retrieveEvidence_success [OF assms(3,4) get meta dec sha put', of ev' usr']
    data stored ident ends
  show ?thesis by auto
qed

text \<open>The theorem on the artifact stored in the empty bucket.\<close>

theorem stored_key_found_by_retrieve_witness:
  "map fst (objects world_pcap) = [''pcap/u1''] \<and>
   map_sum id rr_data (fst (retrieveEvidence demo_client env1 ''u1'' ''bob'' None world_pcap))
     = Inr [104, 105]"
proof -
  obtain r where st:
    "storeEvidence demo_client env0 (Buffer [104, 105])
       (no_metadata \<lparr> in_type := Some ''pcap'', in_description := Some ''capture'' \<rparr>) ''alice'' world0
     = (Inr r, world_pcap)"
    and r: "r_evidenceId r = ''u1''" "m_type (r_metadata r) = ''pcap''"
    by (rule world_pcap_stored)
  obtain md where objs: "objects world_pcap = [(''pcap/u1'', \<lparr> Body = [105, 106], Metadata = Some md \<rparr>)]"
    by (rule world_pcap_lookup)
  have list: "send_ListObjectsV2 world_pcap = Inr [''pcap/u1'']"
    by (simp add: send_ListObjectsV2_def world_pcap_rejects objs)
  have find: "findEvidenceKey [''pcap/u1''] (r_evidenceId r) = Inr (m_type (r_metadata r) @ ''/'' @ r_evidenceId r)"
    by (simp add: r findEvidenceKey_single endsWith_def)
  have get: "s3_rejects world_pcap ''GetObjectCommand'' = None"
    by (simp add: world_pcap_rejects)
  from stored_key_found_by_retrieve [OF st demo_gcm_round_trip_client list find get, of env1 "''bob''"]
  show ?thesis by (auto simp: r objs)
qed

text \<open>
  C8 as stated fails when another key that ends in \<open>/evidenceId\<close> is listed first. The
  artifact \<open>u1\<close> of type \<open>pcap\<close> is stored; a second artifact is then stored with type \<open>log\<close>
  under the id \<open>x/u1\<close> (or under the same id \<open>u1\<close>). Its key \<open>log/x/u1\<close> (or \<open>log/u1\<close>) is
  listed before \<open>pcap/u1\<close>, and retrieving \<open>u1\<close> returns the second artifact.
\<close>

theorem shadowed_evidence_counterexample:
  "map fst (objects world_shadowed) = [''log/x/u1'', ''pcap/u1''] \<and>
   map_option (map_option m_evidenceId \<circ> Metadata) (map_of (objects world_shadowed) ''pcap/u1'')
     = Some (Some ''u1'') \<and>
   map_sum id rr_data (fst (retrieveEvidence demo_client env0 ''u1'' ''bob'' None world_shadowed))
     = Inr [1, 2] \<and>
   map_sum id (m_evidenceId \<circ> rr_metadata)
       (fst (retrieveEvidence demo_client env0 ''u1'' ''bob'' None world_shadowed))
     = Inr ''x/u1'' \<and>
   map fst (objects world_same_id) = [''log/u1'', ''pcap/u1''] \<and>
   map_sum id rr_data (fst (retrieveEvidence demo_client env0 ''u1'' ''bob'' None world_same_id))
     = Inr [1, 2]"
proof -
  have 1: "''x/u1'' \<noteq> []" "endsWith (''log/'' @ ''x/u1'') ''/u1''"
    and 2: "''u1'' \<noteq> []" "endsWith (''log/'' @ ''u1'') ''/u1''"
    by (simp_all add: endsWith_def)
  note a = second_store_retrieve [OF 1, folded world_shadowed_def, unfolded append_Cons append_Nil]
  note b = second_store_retrieve [OF 2, folded world_same_id_def, unfolded append_Cons append_Nil]
  from a b show ?thesis by blast
qed

section \<open>Growth of the custody chain (C6)\<close>

text \<open>
  C6. After a store that returns and \<open>N\<close> serialized calls of \<open>retrieveEvidence\<close> or
  \<open>addCustodyEvent\<close> on the evidence id that all return, the chain stored under the
  artifact's key has \<open>N + 1\<close> entries: the \<open>STORE\<close> entry of the store, followed by the
  entries of the calls in their order. (The chain after the store is the \<open>STORE\<close>
  entry alone, so every call appends its one entry and keeps the earlier ones.) This
  holds when the evidence id resolves to the artifact's own key: when that key is the
  first listed key that ends in \<open>/evidenceId\<close>.
\<close>

theorem custody_chain_growth:
  assumes "storeEvidence c ev data md usr w0 = (Inr r, w1)"
    and "findEvidenceKey (take 1000 (map fst (objects w1))) (r_evidenceId r)
           = Inr (m_type (r_metadata r) @ ''/'' @ r_evidenceId r)"
    and "run_ops c (r_evidenceId r) ops w1 = Some w2"
  shows
    "m_chainOfCustody (r_metadata r) =
       [generateChainOfCustodyEntry c (now_entry ev) (r_evidenceId r) ''STORE'' usr
          (Some (''Initial storage of evidence '' @ js_or (in_description md) []))] \<and>
     stored_chain w1 (m_type (r_metadata r) @ ''/'' @ r_evidenceId r)
       = Some (m_chainOfCustody (r_metadata r)) \<and>
     stored_chain w2 (m_type (r_metadata r) @ ''/'' @ r_evidenceId r)
       = Some (m_chainOfCustody (r_metadata r) @ map (entry_of_op c (r_evidenceId r)) ops) \<and>
     length (m_chainOfCustody (r_metadata r) @ map (entry_of_op c (r_evidenceId r)) ops)
       = length ops + 1 \<and>
     e_action (hd (m_chainOfCustody (r_metadata r) @ map (entry_of_op c (r_evidenceId r)) ops))
       = ''STORE''"
proof -
  let ?k = "m_type (r_metadata r) @ ''/'' @ r_evidenceId r"
  from storeEvidence_inv [OF assms(1)] obtain b enc
    where data: "data = Buffer b" and enc: "encryptData c (randomBytes_16 ev) b = Inr enc"
      and put: "s3_rejects w0 ''PutObjectCommand'' = None"
    by blast
  from storeEvidence_Buffer [OF enc put, of md usr] assms(1) data
  have chain0: "m_chainOfCustody (r_metadata r) =
       [generateChainOfCustodyEntry c (now_entry ev) (r_evidenceId r) ''STORE'' usr
          (Some (''Initial storage of evidence '' @ js_or (in_description md) []))]"
    and objs: "objects w1 = put_object ?k \<lparr> Body = encryptedData enc, Metadata = Some (r_metadata r) \<rparr> (objects w0)"
    by auto
  let ?obj = "\<lparr> Body = encryptedData enc, Metadata = Some (r_metadata r) \<rparr>"
  have stored: "map_of (objects w1) ?k = Some ?obj"
    by (simp add: objs map_of_put_object)
  have meta: "Metadata ?obj = Some (r_metadata r)" by simp
  have 1: "stored_chain w1 ?k = Some (m_chainOfCustody (r_metadata r))"
    using stored by (simp add: stored_chain_def)
  have 2: "stored_chain w2 ?k
      = Some (m_chainOfCustody (r_metadata r) @ map (entry_of_op c (r_evidenceId r)) ops)"
    using run_ops_chain [OF assms(3,2) stored meta] by (simp add: stored_chain_def)
  have 3: "length (m_chainOfCustody (r_metadata r) @ map (entry_of_op c (r_evidenceId r)) ops)
       = length ops + 1"
    by (simp add: chain0)
  have 4: "e_action (hd (m_chainOfCustody (r_metadata r) @ map (entry_of_op c (r_evidenceId r)) ops))
       = ''STORE''"
    by (simp add: chain0)
  from chain0 1 2 3 4 show ?thesis by blast
qed

text \<open>The theorem on a retrieve followed by a custody event.\<close>

theorem custody_chain_growth_witness:
  "map_option (map e_action) (chain_after demo_client ''u1'' demo_ops world_pcap ''pcap/u1'')
   = Some [''STORE'', ''RETRIEVE'', ''ANALYZE'']"
proof -
  obtain r where st:
    "storeEvidence demo_client env0 (Buffer [104, 105])
       (no_metadata \<lparr> in_type := Some ''pcap'', in_description := Some ''capture'' \<rparr>) ''alice'' world0
     = (Inr r, world_pcap)"
    and r: "r_evidenceId r = ''u1''" "m_type (r_metadata r) = ''pcap''"
    by (rule world_pcap_stored)
  obtain md where objs: "objects world_pcap = [(''pcap/u1'', \<lparr> Body = [105, 106], Metadata = Some md \<rparr>)]"
    and md: "m_iv md = demo_iv_hex" "m_authTag md = demo_tag_hex" "m_hash_sha256 md = ''6869''"
    by (rule world_pcap_lookup)
  have find: "findEvidenceKey [''pcap/u1''] ''u1'' = Inr ''pcap/u1''"
    by (simp add: findEvidenceKey_single endsWith_def)
  have list: "send_ListObjectsV2 world_pcap = Inr [''pcap/u1'']"
    by (simp add: send_ListObjectsV2_def world_pcap_rejects objs)
  have get: "send_GetObject ''pcap/u1'' world_pcap = Inr \<lparr> Body = [105, 106], Metadata = Some md \<rparr>"
    by (simp add: send_GetObject_def world_pcap_rejects objs)
  have put: "s3_rejects world_pcap ''PutObjectCommand'' = None"
    by (simp add: world_pcap_rejects)
  let ?md1 = "md \<lparr> m_chainOfCustody := m_chainOfCustody md @
               [generateChainOfCustodyEntry demo_client (now_entry env1) ''u1'' ''RETRIEVE'' ''bob''
                  (Some (''Evidence retrieved by '' @ ''bob''))] \<rparr>"
  from retrieveEvidence_success [OF list find get _ _ _ put, of md demo_client "[104, 105]" env1 "''bob''"]
  obtain res1 w1 where r1: "retrieveEvidence demo_client env1 ''u1'' ''bob'' None world_pcap = (Inr res1, w1)"
    and o1: "objects w1 = [(''pcap/u1'', \<lparr> Body = [105, 106], Metadata = Some ?md1 \<rparr>)]"
    and j1: "s3_rejects w1 = (\<lambda>name. None)"
    by (simp add: md demo_decryptData demo_sha256 objs put_object_def logger_info_def world_pcap_rejects)
  have list1: "send_ListObjectsV2 w1 = Inr [''pcap/u1'']"
    by (simp add: send_ListObjectsV2_def j1 o1)
  have get1: "send_GetObject ''pcap/u1'' w1 = Inr \<lparr> Body = [105, 106], Metadata = Some ?md1 \<rparr>"
    by (simp add: send_GetObject_def j1 o1)
  have put1: "s3_rejects w1 ''PutObjectCommand'' = None"
    by (simp add: j1)
  from addCustodyEvent_success [OF list1 find get1 _ put1, of ?md1 demo_client env1 "''ANALYZE''" "''carol''" None]
  obtain res2 w2 where r2: "addCustodyEvent demo_client env1 ''u1'' ''ANALYZE'' ''carol'' None w1 = (Inr res2, w2)"
    by auto
  have run: "run_ops demo_client (r_evidenceId r) demo_ops world_pcap = Some w2"
    by (simp add: demo_ops_def r r1 r2)
  have find0: "findEvidenceKey (take 1000 (map fst (objects world_pcap))) (r_evidenceId r)
           = Inr (m_type (r_metadata r) @ ''/'' @ r_evidenceId r)"
    by (simp add: r objs find)
  from custody_chain_growth [OF st find0 run]
  have "stored_chain w2 ''pcap/u1''
      = Some (m_chainOfCustody (r_metadata r) @ map (entry_of_op demo_client ''u1'') demo_ops)"
    and "m_chainOfCustody (r_metadata r) =
       [generateChainOfCustodyEntry demo_client (now_entry env0) ''u1'' ''STORE'' ''alice''
          (Some (''Initial storage of evidence '' @
             js_or (in_description (no_metadata \<lparr> in_type := Some ''pcap'', in_description := Some ''capture'' \<rparr>)) []))]"
    by (simp_all add: r)
  then have "map_option (map e_action) (stored_chain w2 ''pcap/u1'')
      = Some [''STORE'', ''RETRIEVE'', ''ANALYZE'']"
    by (simp add: demo_ops_def)
  with run show ?thesis by (simp add: r chain_after_def)
qed

text \<open>
  C6 as stated fails when the evidence id resolves to another artifact. In the bucket
  where the key \<open>log/x/u1\<close> is listed before \<open>pcap/u1\<close>, the chain of the artifact \<open>u1\<close>
  has its \<open>STORE\<close> entry; one retrieve of \<open>u1\<close> returns, and the chain of the artifact
  still has that one entry.
\<close>

theorem shadowed_chain_growth_counterexample:
  "map_option (map e_action) (stored_chain world_shadowed ''pcap/u1'') = Some [''STORE''] \<and>
   run_ops demo_client ''u1'' [(env0, Retrieve ''bob'' None)] world_shadowed \<noteq> None \<and>
   map_option (map e_action)
     (chain_after demo_client ''u1'' [(env0, Retrieve ''bob'' None)] world_shadowed ''pcap/u1'')
   = Some [''STORE'']"
proof -
  have 1: "''x/u1'' \<noteq> []" "endsWith (''log/'' @ ''x/u1'') ''/u1''"
    by (simp_all add: endsWith_def)
  note a = second_store_retrieve [OF 1, folded world_shadowed_def, unfolded append_Cons append_Nil]
  then obtain w' where "run_ops demo_client ''u1'' [(env0, Retrieve ''bob'' None)] world_shadowed = Some w'"
    and "stored_chain w' ''pcap/u1'' = stored_chain world_pcap ''pcap/u1''"
    and "stored_chain world_shadowed ''pcap/u1'' = stored_chain world_pcap ''pcap/u1''"
    by blast
  with world_pcap_chain show ?thesis by (simp add: chain_after_def)
qed

end
